theory Spec2Isabelle
  imports Complex_Main "HOL-Library.Multiset"
begin

section \<open>Values, result records and configuration\<close>

text \<open>
  The value stored in \<open>similarityPercentage\<close> is a JavaScript number or a string.
  A number is the real it stands for; the arithmetic that rounds (the division and the
  multiplication of the similarity) rounds to the nearest double, see \<open>round64\<close>.
  \<open>NaN\<close>, which JavaScript's \<open>0 / 0\<close> produces and for which \<open>typeof\<close> still
  answers \<open>"number"\<close>, is a value of its own. The strings the source produces are
  \<open>"Error"\<close> and \<open>"Size mismatch"\<close>.
\<close>

datatype js_value = Num real | NaN | Str string

text \<open>\<open>typeof v === "number"\<close>\<close>

fun isNumber :: "js_value \<Rightarrow> bool" where
  "isNumber (Num x) = True"
| "isNumber NaN = True"
| "isNumber (Str s) = False"

text \<open>\<open>v >= 95\<close> and \<open>v < 95\<close> on a value that is a number: both are false on \<open>NaN\<close>.\<close>

fun geq95 :: "js_value \<Rightarrow> bool" where
  "geq95 (Num x) = (95 \<le> x)"
| "geq95 NaN = False"
| "geq95 (Str s) = False"

fun less95 :: "js_value \<Rightarrow> bool" where
  "less95 (Num x) = (x < 95)"
| "less95 NaN = False"
| "less95 (Str s) = False"

text \<open>
  The object pushed onto \<open>results\<close> by the main loop: \<open>{ pagePath, similarityPercentage }\<close>,
  with the field \<open>error\<close> only in the \<open>catch\<close> branch.
\<close>

record comparison =
  pagePath :: string
  similarityPercentage :: js_value
  error :: "string option"

text \<open>\<open>config.js\<close>: the two base URLs and the list of page paths.\<close>

definition staging_baseUrl :: string where
  "staging_baseUrl = ''https://live-web-sheridan.pantheonsite.io''"

definition prod_baseUrl :: string where
  "prod_baseUrl = ''https://online.sheridancollege.ca''"

definition staging_urls :: "string list" where
  "staging_urls =
    [''/'', ''/about/'', ''/academic-calendar/'', ''/admissions/'', ''/apply/'',
     ''/apply/?d={internal_program_code}'',
     ''/apply/?d=SHERIDAN.CA-B-BCPTRSCI'',
     ''/apply/?d=SHERIDAN.CA-B-BINFOSCICBRSEC'',
     ''/apply/?d=SHERIDAN.CA-B-BSCLCMTYDEV'',
     ''/apply/?d=SHERIDAN.CA-B-GENARTSSCIIS'',
     ''/apply/?d=URI-B-RNBS'',
     ''/apply/?d=URI-B-RNBS&calculator=true'',
     ''/degrees/area/'', ''/degrees/area/prototype/'', ''/privacy-policy/'',
     ''/degrees/undergraduate/'',
     ''/degrees/undergraduate/bachelors-computer-information-science/'',
     ''/degrees/'',
     ''/degrees/undergraduate/bachelors-computer-information-science/cyber-security/'',
     ''/degrees/undergraduate/bachelors-computer-information-science/general/'',
     ''/degrees/undergraduate/bachelors-social-community-development/'',
     ''/degrees/undergraduate/general-arts-science-university-profile/'',
     ''/online-experience/'', ''/request-info/'',
     ''/apply?d=URI-B-RNBS&calculator=true'',
     ''/student-services/'', ''/tuition/'']"

section \<open>Artifact paths\<close>

text \<open>\<open>pagePath.replace(/\//g, "_")\<close>: every slash becomes an underscore.\<close>

definition sanitize :: "string \<Rightarrow> string" where
  "sanitize p = map (\<lambda>c. if c = CHR ''/'' then CHR ''_'' else c) p"

text \<open>
  \<open>path.join(baseDir, dir, `${sanitized}.png`)\<close> with \<open>baseDir = `screenshots/${deviceName}`\<close>,
  and the template \<open>`screenshots/${deviceName}/${dir}/${sanitizedPath}.png`\<close> of the report.
  On a POSIX file system the two give the same string: the last segment holds no slash and,
  ending in \<open>.png\<close>, is neither \<open>.\<close> nor \<open>..\<close>, so \<open>path.join\<close> has nothing to normalise.
\<close>

definition screenshotPath :: "string \<Rightarrow> string \<Rightarrow> string \<Rightarrow> string" where
  "screenshotPath deviceName dir pagePath' =
     ''screenshots/'' @ deviceName @ ''/'' @ dir @ ''/'' @ sanitize pagePath' @ ''.png''"

section \<open>The report assembler: counts, comparator, rows\<close>

text \<open>The three predicates of the \<open>filter\<close> calls that count passed, failed and errors.\<close>

definition isPassed :: "comparison \<Rightarrow> bool" where
  "isPassed r = (isNumber (similarityPercentage r) \<and> geq95 (similarityPercentage r))"

definition isFailed :: "comparison \<Rightarrow> bool" where
  "isFailed r = (isNumber (similarityPercentage r) \<and> less95 (similarityPercentage r))"

definition isErrored :: "comparison \<Rightarrow> bool" where
  "isErrored r = (similarityPercentage r = Str ''Error'')"

text \<open>
  The comparator handed to \<open>results.sort\<close>. Its result is a JavaScript number; where
  \<open>a - b\<close> is \<open>NaN\<close> the sort reads it as \<open>+0\<close>, which is what the model returns.
\<close>

definition compareFn :: "comparison \<Rightarrow> comparison \<Rightarrow> real" where
  "compareFn a b =
     (if similarityPercentage a = Str ''Error'' then - 1
      else if similarityPercentage b = Str ''Error'' then 1
      else if isNumber (similarityPercentage a) \<and> isNumber (similarityPercentage b)
        then (case (similarityPercentage a, similarityPercentage b) of
                (Num x, Num y) \<Rightarrow> x - y
              | _ \<Rightarrow> 0)
      else 0)"

text \<open>
  \<open>Array.prototype.sort\<close> is a primitive of the language, not code of the repository.
  ECMAScript fixes its result (the stable arrangement in comparator order) only when the
  comparator is consistent on the elements; otherwise the order is left to the engine.
  The model is insertion from left to right: each element is placed in front of the first
  element of the sorted prefix it compares below. On a consistent comparator this is the
  stable sort every engine computes.
\<close>

fun insertSorted :: "('a \<Rightarrow> 'a \<Rightarrow> real) \<Rightarrow> 'a \<Rightarrow> 'a list \<Rightarrow> 'a list" where
  "insertSorted cmp x [] = [x]"
| "insertSorted cmp x (y # ys) =
     (if cmp x y < 0 then x # y # ys else y # insertSorted cmp x ys)"

definition arraySort :: "('a \<Rightarrow> 'a \<Rightarrow> real) \<Rightarrow> 'a list \<Rightarrow> 'a list" where
  "arraySort cmp xs = foldl (\<lambda>acc x. insertSorted cmp x acc) [] xs"

text \<open>The status of a row: \<open>statusClass\<close> and \<open>statusText\<close> of the \<open>forEach\<close> body.\<close>

definition statusClass :: "comparison \<Rightarrow> string" where
  "statusClass result =
     (if isNumber (similarityPercentage result)
      then (if geq95 (similarityPercentage result) then ''status-pass'' else ''status-fail'')
      else ''status-error'')"

definition statusText :: "comparison \<Rightarrow> string" where
  "statusText result =
     (if isNumber (similarityPercentage result)
      then (if geq95 (similarityPercentage result) then ''Pass'' else ''Fail'')
      else ''Error'')"

section \<open>Files and external collaborators\<close>

text \<open>
  The file system is a map from paths to file contents (byte strings).
  \<open>fs.existsSync\<close> asks whether the path is in its domain, \<open>fs.readFileSync\<close> throws
  on a missing path, \<open>fs.writeFileSync\<close> stores the contents. The directories are made
  before any write, so a write itself is taken to succeed.
\<close>

type_synonym files = "string \<rightharpoonup> string"

definition existsSync :: "files \<Rightarrow> string \<Rightarrow> bool" where
  "existsSync fs p = (fs p \<noteq> None)"

definition readFileSync :: "files \<Rightarrow> string \<Rightarrow> string + string" where
  "readFileSync fs p = (case fs p of None \<Rightarrow> Inl (''ENOENT: '' @ p) | Some b \<Rightarrow> Inr b)"

definition writeFileSync :: "files \<Rightarrow> string \<Rightarrow> string \<Rightarrow> files" where
  "writeFileSync fs p b = fs(p \<mapsto> b)"

text \<open>A decoded PNG: \<open>img.width\<close>, \<open>img.height\<close>, \<open>img.data\<close>.\<close>

record png =
  width :: nat
  height :: nat
  data :: "nat list"

text \<open>
  What the program calls but does not contain, as parameters. A thrown exception is
  \<open>Inl\<close> of its message.
  \<^item> \<open>page_capture\<close>: \<open>page.goto(url)\<close> followed by \<open>page.screenshot\<close>; it either throws
    or yields the bytes written to the screenshot path. The browser and the network
    are the world \<open>'w\<close>, which every call may change.
  \<^item> \<open>sharp_resize\<close>: \<open>sharp(buffer).resize(w, h, {fit: "contain", ...}).toBuffer()\<close>.
  \<^item> \<open>png_read\<close>, \<open>png_write\<close>: \<open>PNG.sync.read\<close> and \<open>PNG.sync.write\<close>.
  \<^item> \<open>pixel_differs\<close>: for a position where the two images hold different pixels,
    pixelmatch's decision whether the difference counts (colour distance over the
    threshold 0.1, anti-aliased pixels set aside); \<open>diff_mask\<close>: the mask it draws.
  \<^item> \<open>base64\<close>: \<open>Buffer.toString("base64")\<close>.
\<close>

record 'w ext =
  page_capture :: "'w \<Rightarrow> string \<Rightarrow> (string + string) \<times> 'w"
  sharp_resize :: "string \<Rightarrow> nat \<Rightarrow> nat \<Rightarrow> string + string"
  png_read :: "string \<Rightarrow> string + png"
  png_write :: "png \<Rightarrow> string"
  pixel_differs :: "nat list \<Rightarrow> nat list \<Rightarrow> nat \<Rightarrow> nat \<Rightarrow> nat \<Rightarrow> bool"
  diff_mask :: "nat list \<Rightarrow> nat list \<Rightarrow> nat \<Rightarrow> nat \<Rightarrow> nat list"
  base64 :: "string \<Rightarrow> string"

text \<open>The four bytes (red, green, blue, alpha) of the pixel at a position.\<close>

definition pixelAt :: "nat list \<Rightarrow> nat \<Rightarrow> nat list" where
  "pixelAt d i = take 4 (drop (4 * i) d)"

text \<open>
  Modelled from the spec: \<open>pixelmatch(img1, img2, output, width, height, options)\<close>, the
  differ of the pixelmatch library, whose code is not part of the repository. The spec's
  Diff Engine compares pixel by pixel, takes two pixels whose difference is below the
  tolerance for matching, and scores by the number of mismatched pixels. So the result is
  the number of positions among the \<open>width * height\<close> ones that mismatch, and a position
  where both images hold the same pixel (difference zero) never does; for two different
  pixels the decision is the library's, \<open>pixel_differs\<close>. (The library throws on buffers
  whose length is not \<open>4 * width * height\<close>; the buffers pngjs decodes have that length.)
\<close>

definition pixelmatch :: "'w ext \<Rightarrow> nat list \<Rightarrow> nat list \<Rightarrow> nat \<Rightarrow> nat \<Rightarrow> nat" where
  "pixelmatch X d1 d2 w h =
     length (filter (\<lambda>i. pixelAt d1 i \<noteq> pixelAt d2 i \<and> pixel_differs X d1 d2 w h i)
                    [0..<w * h])"

section \<open>Arithmetic on doubles\<close>

text \<open>
  A JavaScript number is an IEEE 754 double, and every arithmetic operation returns the
  double nearest to the exact result, ties going to the even mantissa. \<open>exponent x\<close> is
  the binary exponent of a positive \<open>x\<close> (the \<open>e\<close> with \<open>2^e \<le> x < 2^(e+1)\<close>), found by
  halving or doubling; the doubles around \<open>x\<close> are the multiples of \<open>2^(e - 52)\<close>, and of
  \<open>2^(-1074)\<close> below the normal range. Results beyond the largest double (infinities)
  are outside the model; no number of the program comes near.
\<close>

function expo_up :: "real \<Rightarrow> int" where
  "expo_up x = (if 2 \<le> x then expo_up (x / 2) + 1 else 0)"
  by pat_completeness auto
termination
proof (relation "measure (\<lambda>x. nat \<lfloor>x\<rfloor>)")
  show "wf (measure (\<lambda>x::real. nat \<lfloor>x\<rfloor>))" by simp
next
  fix x :: real
  assume x: "2 \<le> x"
  then have "x / 2 \<le> x - 1" by simp
  then have "\<lfloor>x / 2\<rfloor> \<le> \<lfloor>x - 1\<rfloor>" by (rule floor_mono)
  also have "\<dots> = \<lfloor>x\<rfloor> - 1" by simp
  finally have "\<lfloor>x / 2\<rfloor> < \<lfloor>x\<rfloor>" by simp
  moreover from x have "0 < \<lfloor>x\<rfloor>" by simp
  ultimately show "(x / 2, x) \<in> measure (\<lambda>x. nat \<lfloor>x\<rfloor>)" by simp
qed

declare expo_up.simps [simp del]

function expo_down :: "real \<Rightarrow> int" where
  "expo_down x = (if 0 < x \<and> x < 1 then expo_down (2 * x) - 1 else 0)"
  by pat_completeness auto
termination
proof (relation "measure (\<lambda>x. nat \<lceil>1 / x\<rceil>)")
  show "wf (measure (\<lambda>x::real. nat \<lceil>1 / x\<rceil>))" by simp
next
  fix x :: real
  assume x: "0 < x \<and> x < 1"
  define y where "y = 1 / x"
  from x have y: "1 < y" by (simp add: y_def)
  then have c2: "2 \<le> \<lceil>y\<rceil>" by linarith
  have "y / 2 \<le> real_of_int \<lceil>y\<rceil> / 2" by (simp add: le_of_int_ceiling)
  also from c2 have "\<dots> \<le> real_of_int (\<lceil>y\<rceil> - 1)" by simp
  finally have "y / 2 \<le> real_of_int (\<lceil>y\<rceil> - 1)" .
  then have "\<lceil>y / 2\<rceil> \<le> \<lceil>y\<rceil> - 1" by (rule ceiling_le)
  then have "\<lceil>y / 2\<rceil> < \<lceil>y\<rceil>" by simp
  moreover have "1 / (2 * x) = y / 2" by (simp add: y_def)
  ultimately have "\<lceil>1 / (2 * x)\<rceil> < \<lceil>1 / x\<rceil>" by (simp only: y_def)
  moreover from c2 have "0 < \<lceil>1 / x\<rceil>" unfolding y_def by linarith
  ultimately show "(2 * x, x) \<in> measure (\<lambda>x. nat \<lceil>1 / x\<rceil>)" by simp
qed

declare expo_down.simps [simp del]

definition exponent :: "real \<Rightarrow> int" where
  "exponent x = (if 1 \<le> x then expo_up x else expo_down x)"

text \<open>The integer nearest to \<open>q\<close>, the even one of the two when \<open>q\<close> lies half way.\<close>

definition round_even :: "real \<Rightarrow> int" where
  "round_even q =
     (let n = \<lfloor>q\<rfloor>; r = q - of_int n
      in if r < 1 / 2 then n
         else if 1 / 2 < r then n + 1
         else if even n then n else n + 1)"

definition round64 :: "real \<Rightarrow> real" where
  "round64 x =
     (if x = 0 then 0
      else (let e = max (exponent \<bar>x\<bar>) (- 1022);
                u = 2 powi (e - 52)
            in sgn x * of_int (round_even (\<bar>x\<bar> / u)) * u))"

text \<open>
  JavaScript's \<open>a / b\<close> and \<open>v * c\<close>. At \<open>b = 0\<close> the quotient is \<open>NaN\<close> when \<open>a = 0\<close> (and an
  infinity otherwise, which the one division of the program cannot reach: its
  numerator is the number of matched pixels, zero when there is no pixel).
  Multiplication keeps \<open>NaN\<close>. The counts of pixels and their difference are integers
  far below \<open>2^53\<close> and exact.
\<close>

definition js_divide :: "real \<Rightarrow> real \<Rightarrow> js_value" where
  "js_divide a b = (if b = 0 then NaN else Num (round64 (a / b)))"

fun js_times :: "js_value \<Rightarrow> real \<Rightarrow> js_value" where
  "js_times (Num x) c = Num (round64 (x * c))"
| "js_times NaN c = NaN"
| "js_times (Str s) c = NaN"

section \<open>Helper functions of the test file\<close>

text \<open>
  \<open>path.extname\<close> of a path whose last segment is a file name: the text from the last dot
  of the last segment on, empty when there is no dot or the only dot leads the name.
\<close>

definition basename :: "string \<Rightarrow> string" where
  "basename p = rev (takeWhile (\<lambda>c. c \<noteq> CHR ''/'') (rev p))"

definition extname :: "string \<Rightarrow> string" where
  "extname p =
     (let b = basename p; e = rev (takeWhile (\<lambda>c. c \<noteq> CHR ''.'') (rev b))
      in if CHR ''.'' \<notin> set b \<or> length e + 1 = length b then [] else CHR ''.'' # e)"

text \<open>
  \<open>imageToBase64\<close>: a data URL of the file, or \<open>null\<close> when the file is missing.
  \<open>dataUrl\<close> is its template string \<open>`data:image/${ext};base64,${imageData}`\<close>.
\<close>

definition dataUrl :: "'w ext \<Rightarrow> string \<Rightarrow> string \<Rightarrow> string" where
  "dataUrl X imagePath b =
     ''data:image/'' @ remove1 (CHR ''.'') (extname imagePath) @ '';base64,'' @ base64 X b"

definition imageToBase64 :: "'w ext \<Rightarrow> files \<Rightarrow> string \<Rightarrow> string option" where
  "imageToBase64 X fs imagePath =
     (if existsSync fs imagePath
      then (case readFileSync fs imagePath of
              Inl m \<Rightarrow> None
            | Inr b \<Rightarrow> Some (dataUrl X imagePath b))
      else None)"

text \<open>
  \<open>resizeImage\<close>: read the file, resize the buffer, write the result to the same path.
  It throws when the read or the resize throws; nothing is written then.
\<close>

definition resizeImage :: "'w ext \<Rightarrow> files \<Rightarrow> string \<Rightarrow> nat \<Rightarrow> nat \<Rightarrow> string + files" where
  "resizeImage X fs imagePath w h =
     (case readFileSync fs imagePath of
        Inl m \<Rightarrow> Inl m
      | Inr buffer \<Rightarrow>
          (case sharp_resize X buffer w h of
             Inl m \<Rightarrow> Inl m
           | Inr resizedBuffer \<Rightarrow> Inr (writeFileSync fs imagePath resizedBuffer)))"

text \<open>
  Lines 71 to 92 of \<open>compareScreenshots\<close>, once both images are decoded and of one size:
  the diff mask is drawn and written to \<open>diffPath\<close>, the mismatched pixels are counted and
  the similarity is \<open>(matchedPixels / totalPixels) * 100\<close>.
\<close>

definition similarityOf :: "'w ext \<Rightarrow> png \<Rightarrow> png \<Rightarrow> js_value" where
  "similarityOf X img1 img2 =
     (let totalPixels = width img1 * height img1;
          mismatchedPixels = pixelmatch X (data img1) (data img2) (width img1) (height img1);
          matchedPixels = real totalPixels - real mismatchedPixels
      in js_times (js_divide matchedPixels (real totalPixels)) 100)"

definition diffImage :: "'w ext \<Rightarrow> png \<Rightarrow> png \<Rightarrow> png" where
  "diffImage X img1 img2 =
     \<lparr> width = width img1, height = height img1,
       data = diff_mask X (data img1) (data img2) (width img1) (height img1) \<rparr>"

text \<open>
  \<open>compareScreenshots\<close> returns a value (\<open>"Error"\<close>, \<open>"Size mismatch"\<close> or the similarity)
  or throws, and leaves the files as it changed them up to that point.
\<close>

definition compareScreenshots ::
  "'w ext \<Rightarrow> files \<Rightarrow> string \<Rightarrow> string \<Rightarrow> string \<Rightarrow> (string + js_value) \<times> files" where
  "compareScreenshots X fs baselinePath currentPath diffPath =
     (if \<not> existsSync fs baselinePath \<or> \<not> existsSync fs currentPath
      then (Inr (Str ''Error''), fs)
      else
        (case resizeImage X fs baselinePath 1280 800 of
           Inl m \<Rightarrow> (Inl m, fs)
         | Inr fs1 \<Rightarrow>
        (case resizeImage X fs1 currentPath 1280 800 of
           Inl m \<Rightarrow> (Inl m, fs1)
         | Inr fs2 \<Rightarrow>
        (case readFileSync fs2 baselinePath of
           Inl m \<Rightarrow> (Inl m, fs2)
         | Inr b1 \<Rightarrow>
        (case png_read X b1 of
           Inl m \<Rightarrow> (Inl m, fs2)
         | Inr img1 \<Rightarrow>
        (case readFileSync fs2 currentPath of
           Inl m \<Rightarrow> (Inl m, fs2)
         | Inr b2 \<Rightarrow>
        (case png_read X b2 of
           Inl m \<Rightarrow> (Inl m, fs2)
         | Inr img2 \<Rightarrow>
             if width img1 \<noteq> width img2 \<or> height img1 \<noteq> height img2
             then (Inr (Str ''Size mismatch''), fs2)
             else (Inr (similarityOf X img1 img2),
                   writeFileSync fs2 diffPath (png_write X (diffImage X img1 img2))))))))))"

text \<open>
  \<open>captureScreenshot\<close> catches whatever the browser throws and only logs it: it never
  throws, and on a failure it writes no file.
\<close>

definition captureScreenshot ::
  "'w ext \<Rightarrow> files \<times> 'w \<Rightarrow> string \<Rightarrow> string \<Rightarrow> files \<times> 'w" where
  "captureScreenshot X s url screenshotPath' =
     (case page_capture X (snd s) url of
        (Inl m, w') \<Rightarrow> (fst s, w')
      | (Inr shot, w') \<Rightarrow> (writeFileSync (fst s) screenshotPath' shot, w'))"

section \<open>The main loop\<close>

text \<open>The state the loop threads: the files, the browser's world, the \<open>results\<close> array.\<close>

record 'w state =
  files :: files
  world :: 'w
  results :: "comparison list"

definition deviceName :: string where
  "deviceName = ''Desktop''"

text \<open>
  One pass of the body of \<open>for (const pagePath of config.staging.urls)\<close>: both captures,
  the comparison, and one \<open>results.push\<close>, in the \<open>try\<close> block or in its \<open>catch\<close>.
\<close>

definition processPage :: "'w ext \<Rightarrow> string \<Rightarrow> 'w state \<Rightarrow> 'w state" where
  "processPage X pagePath' s =
     (let stagingUrl = staging_baseUrl @ pagePath';
          prodUrl = prod_baseUrl @ pagePath';
          stagingScreenshotPath = screenshotPath deviceName ''staging'' pagePath';
          prodScreenshotPath = screenshotPath deviceName ''prod'' pagePath';
          diffScreenshotPath = screenshotPath deviceName ''diff'' pagePath';
          s1 = captureScreenshot X (files s, world s) stagingUrl stagingScreenshotPath;
          s2 = captureScreenshot X s1 prodUrl prodScreenshotPath
      in (case compareScreenshots X (fst s2)
                 stagingScreenshotPath prodScreenshotPath diffScreenshotPath of
            (Inr similarity, fs') \<Rightarrow>
              \<lparr> files = fs', world = snd s2,
                results = results s @
                  [\<lparr> pagePath = pagePath', similarityPercentage = similarity,
                     error = None \<rparr>] \<rparr>
          | (Inl message, fs') \<Rightarrow>
              \<lparr> files = fs', world = snd s2,
                results = results s @
                  [\<lparr> pagePath = pagePath', similarityPercentage = Str ''Error'',
                     error = Some message \<rparr>] \<rparr>))"

fun runLoop :: "'w ext \<Rightarrow> string list \<Rightarrow> 'w state \<Rightarrow> 'w state" where
  "runLoop X [] s = s"
| "runLoop X (pagePath' # rest) s = runLoop X rest (processPage X pagePath' s)"

section \<open>The report\<close>

text \<open>
  The similarity column: a number printed by \<open>toFixed(2)\<close> with a percent sign, or the
  text \<open>Error\<close>.
\<close>

datatype cell = Percent js_value | Plain string

definition similarityCell :: "comparison \<Rightarrow> cell" where
  "similarityCell result =
     (if isNumber (similarityPercentage result)
      then Percent (similarityPercentage result)
      else Plain ''Error'')"

text \<open>
  One table row: the two links, the similarity column, the status column (its class and
  its text) and the three embedded images (\<open>None\<close> is printed as \<open>N/A\<close>).
\<close>

record row =
  stagingHref :: string
  prodHref :: string
  similarityColumn :: cell
  statusColumnClass :: string
  statusColumn :: string
  stagingBase64 :: "string option"
  prodBase64 :: "string option"
  diffBase64 :: "string option"

definition reportRow :: "'w ext \<Rightarrow> files \<Rightarrow> string \<Rightarrow> comparison \<Rightarrow> row" where
  "reportRow X fs device result =
     \<lparr> stagingHref = staging_baseUrl @ pagePath result,
       prodHref = prod_baseUrl @ pagePath result,
       similarityColumn = similarityCell result,
       statusColumnClass = statusClass result,
       statusColumn = statusText result,
       stagingBase64 = imageToBase64 X fs (screenshotPath device ''staging'' (pagePath result)),
       prodBase64 = imageToBase64 X fs (screenshotPath device ''prod'' (pagePath result)),
       diffBase64 = imageToBase64 X fs (screenshotPath device ''diff'' (pagePath result)) \<rparr>"

text \<open>
  The report as data: its file name, the summary (total, passed, failed, errors) and the
  rows in the order of the sorted array. The time stamp and the markup are left out.
\<close>

record report =
  reportPath :: string
  totalPages :: nat
  passed :: nat
  failed :: nat
  errors :: nat
  tableRows :: "row list"

definition generateHtmlReport ::
  "'w ext \<Rightarrow> files \<Rightarrow> comparison list \<Rightarrow> string \<Rightarrow> report" where
  "generateHtmlReport X fs rs device =
     \<lparr> reportPath = ''visual_comparison_report_'' @ device @ ''.html'',
       totalPages = length rs,
       passed = length (filter isPassed rs),
       failed = length (filter isFailed rs),
       errors = length (filter isErrored rs),
       tableRows = map (reportRow X fs device) (arraySort compareFn rs) \<rparr>"

text \<open>
  The test \<open>Compare staging and prod screenshots and generate HTML report\<close>: the loop over
  the page paths from an empty \<open>results\<close>, then the report over what the loop left.
\<close>

definition visualComparison :: "'w ext \<Rightarrow> string list \<Rightarrow> files \<Rightarrow> 'w \<Rightarrow> report" where
  "visualComparison X urls fs w =
     (let s = runLoop X urls \<lparr> files = fs, world = w, results = [] \<rparr>
      in generateHtmlReport X (files s) (results s) deviceName)"

section \<open>A sample world\<close>

text \<open>
  One choice of the collaborators, for running the definitions on concrete pages: the
  browser times out on the staging page \<open>/down/\<close> and captures every other URL, the
  resize and the decoder always succeed and every decoded image is a 1280 by 800 canvas,
  and every difference between two pixels counts. The world counts the browser's calls.
\<close>

definition sampleExt :: "nat ext" where
  "sampleExt =
     \<lparr> page_capture = (\<lambda>w url.
         (if url = staging_baseUrl @ ''/down/''
          then Inl ''page.goto: Timeout 60000ms exceeded.''
          else Inr (''shot of '' @ url), Suc w)),
       sharp_resize = (\<lambda>b w h. Inr (''canvas of '' @ b)),
       png_read = (\<lambda>b.
         Inr \<lparr> width = 1280, height = 800, data = replicate (4 * 1280 * 800) 255 \<rparr>),
       png_write = (\<lambda>img. ''mask''),
       pixel_differs = (\<lambda>d1 d2 w h i. True),
       diff_mask = (\<lambda>d1 d2 w h. d1),
       base64 = (\<lambda>b. b) \<rparr>"

definition emptyState :: "nat state" where
  "emptyState = \<lparr> files = Map.empty, world = 0, results = [] \<rparr>"

text \<open>Two images of two pixels each; they differ in the second pixel.\<close>

definition imgA :: png where
  "imgA = \<lparr> width = 2, height = 1, data = [0, 0, 0, 255, 255, 255, 255, 255] \<rparr>"

definition imgB :: png where
  "imgB = \<lparr> width = 2, height = 1, data = [0, 0, 0, 255, 255, 0, 0, 255] \<rparr>"

section \<open>Properties of the report assembler\<close>

subsection \<open>The sort keeps every row\<close>

lemma mset_insertSorted: "mset (insertSorted cmp x ys) = add_mset x (mset ys)"
  by (induction ys) simp_all

lemma mset_foldl_insertSorted:
  "mset (foldl (\<lambda>acc x. insertSorted cmp x acc) acc xs) = mset acc + mset xs"
  by (induction xs arbitrary: acc) (simp_all add: mset_insertSorted)

lemma mset_arraySort: "mset (arraySort cmp xs) = mset xs"
  by (simp add: arraySort_def mset_foldl_insertSorted)

lemma length_arraySort: "length (arraySort cmp xs) = length xs"
  using mset_arraySort [of cmp xs] by (metis size_mset)


subsection \<open>Classification\<close>

lemma mset_tableRows:
  "mset (tableRows (generateHtmlReport X fs rs d)) = image_mset (reportRow X fs d) (mset rs)"
proof -
  have "mset (map (reportRow X fs d) (arraySort compareFn rs))
      = image_mset (reportRow X fs d) (mset (arraySort compareFn rs))" by simp
  then show ?thesis by (simp only: generateHtmlReport_def row.simps report.simps mset_arraySort)
qed

text \<open>
  C2. A row whose similarity is the number \<open>p\<close> is shown as Pass exactly when \<open>p \<ge> 95\<close>
  and as Fail exactly when \<open>p < 95\<close>, and the summary counts it as passed and as failed
  under the same two conditions; it is never counted as an error. The threshold belongs
  to the pass side: 95 itself is a Pass. This holds of the report itself: the status
  column and its class in the row built for the result, the rows of the report (one for
  each result, the row built for it), and the three counts of the summary, to which a
  result with the number \<open>p\<close> adds one passed if \<open>p \<ge> 95\<close>, one failed if \<open>p < 95\<close> and
  no error.
\<close>

theorem classification_threshold:
  "(statusText (r\<lparr>similarityPercentage := Num p\<rparr>) = ''Pass'' \<longleftrightarrow> 95 \<le> p)
   \<and> (statusText (r\<lparr>similarityPercentage := Num p\<rparr>) = ''Fail'' \<longleftrightarrow> p < 95)
   \<and> (isPassed (r\<lparr>similarityPercentage := Num p\<rparr>) \<longleftrightarrow> 95 \<le> p)
   \<and> (isFailed (r\<lparr>similarityPercentage := Num p\<rparr>) \<longleftrightarrow> p < 95)
   \<and> \<not> isErrored (r\<lparr>similarityPercentage := Num p\<rparr>)
   \<and> statusText (r\<lparr>similarityPercentage := Num 95\<rparr>) = ''Pass''
   \<and> statusColumn (reportRow X fs d (r\<lparr>similarityPercentage := Num p\<rparr>))
       = (if 95 \<le> p then ''Pass'' else ''Fail'')
   \<and> statusColumnClass (reportRow X fs d (r\<lparr>similarityPercentage := Num p\<rparr>))
       = (if 95 \<le> p then ''status-pass'' else ''status-fail'')
   \<and> mset (tableRows (generateHtmlReport X fs rs d)) = image_mset (reportRow X fs d) (mset rs)
   \<and> passed (generateHtmlReport X fs (rs @ r\<lparr>similarityPercentage := Num p\<rparr> # rs') d)
       = passed (generateHtmlReport X fs (rs @ rs') d) + (if 95 \<le> p then 1 else 0)
   \<and> failed (generateHtmlReport X fs (rs @ r\<lparr>similarityPercentage := Num p\<rparr> # rs') d)
       = failed (generateHtmlReport X fs (rs @ rs') d) + (if p < 95 then 1 else 0)
   \<and> errors (generateHtmlReport X fs (rs @ r\<lparr>similarityPercentage := Num p\<rparr> # rs') d)
       = errors (generateHtmlReport X fs (rs @ rs') d)"
proof -
  have a: "(statusText (r\<lparr>similarityPercentage := Num p\<rparr>) = ''Pass'' \<longleftrightarrow> 95 \<le> p)
   \<and> (statusText (r\<lparr>similarityPercentage := Num p\<rparr>) = ''Fail'' \<longleftrightarrow> p < 95)
   \<and> (isPassed (r\<lparr>similarityPercentage := Num p\<rparr>) \<longleftrightarrow> 95 \<le> p)
   \<and> (isFailed (r\<lparr>similarityPercentage := Num p\<rparr>) \<longleftrightarrow> p < 95)
   \<and> \<not> isErrored (r\<lparr>similarityPercentage := Num p\<rparr>)
   \<and> statusText (r\<lparr>similarityPercentage := Num 95\<rparr>) = ''Pass''"
    by (auto simp: statusText_def isPassed_def isFailed_def isErrored_def)
  have b: "statusColumn (reportRow X fs d (r\<lparr>similarityPercentage := Num p\<rparr>))
       = (if 95 \<le> p then ''Pass'' else ''Fail'')
   \<and> statusColumnClass (reportRow X fs d (r\<lparr>similarityPercentage := Num p\<rparr>))
       = (if 95 \<le> p then ''status-pass'' else ''status-fail'')"
    by (simp add: reportRow_def statusText_def statusClass_def)
  have c: "passed (generateHtmlReport X fs (rs @ r\<lparr>similarityPercentage := Num p\<rparr> # rs') d)
       = passed (generateHtmlReport X fs (rs @ rs') d) + (if 95 \<le> p then 1 else 0)
   \<and> failed (generateHtmlReport X fs (rs @ r\<lparr>similarityPercentage := Num p\<rparr> # rs') d)
       = failed (generateHtmlReport X fs (rs @ rs') d) + (if p < 95 then 1 else 0)
   \<and> errors (generateHtmlReport X fs (rs @ r\<lparr>similarityPercentage := Num p\<rparr> # rs') d)
       = errors (generateHtmlReport X fs (rs @ rs') d)"
    by (simp add: generateHtmlReport_def isPassed_def isFailed_def isErrored_def)
  from a b c mset_tableRows [of X fs rs d] show ?thesis by blast
qed

subsection \<open>The comparator\<close>

text \<open>
  C1. For two rows that both hold \<open>"Error"\<close> the comparator answers \<open>-1\<close> whichever of
  them comes first: each is said to sort before the other. The first test of the
  comparator looks at \<open>a\<close> alone and the case of two errors is never reached, so the
  comparator is not consistent and the order of Error rows is left to the engine.
\<close>

theorem compareFn_two_errors:
  "compareFn \<lparr>pagePath = ''/a'', similarityPercentage = Str ''Error'', error = None\<rparr>
             \<lparr>pagePath = ''/b'', similarityPercentage = Str ''Error'', error = None\<rparr> = - 1
   \<and> compareFn \<lparr>pagePath = ''/b'', similarityPercentage = Str ''Error'', error = None\<rparr>
               \<lparr>pagePath = ''/a'', similarityPercentage = Str ''Error'', error = None\<rparr> = - 1"
  by (simp add: compareFn_def)

text \<open>
  Under the insertion model of the sort the later of two Error rows ends in front of the
  earlier one, and the mixed outcomes \<open>[98, Error, 40, 99, Error]\<close> come out as
  \<open>[Error, Error, 40, 98, 99]\<close> with the two Error rows exchanged.
\<close>

lemma arraySort_two_errors:
  "map pagePath (arraySort compareFn
     [\<lparr>pagePath = ''/a'', similarityPercentage = Str ''Error'', error = None\<rparr>,
      \<lparr>pagePath = ''/b'', similarityPercentage = Str ''Error'', error = None\<rparr>])
   = [''/b'', ''/a'']"
  by (simp add: compareFn_def arraySort_def)

lemma arraySort_mixed_outcomes:
  "arraySort compareFn
     [\<lparr>pagePath = ''/1'', similarityPercentage = Num 98, error = None\<rparr>,
      \<lparr>pagePath = ''/2'', similarityPercentage = Str ''Error'', error = None\<rparr>,
      \<lparr>pagePath = ''/3'', similarityPercentage = Num 40, error = None\<rparr>,
      \<lparr>pagePath = ''/4'', similarityPercentage = Num 99, error = None\<rparr>,
      \<lparr>pagePath = ''/5'', similarityPercentage = Str ''Error'', error = None\<rparr>]
   = [\<lparr>pagePath = ''/5'', similarityPercentage = Str ''Error'', error = None\<rparr>,
      \<lparr>pagePath = ''/2'', similarityPercentage = Str ''Error'', error = None\<rparr>,
      \<lparr>pagePath = ''/3'', similarityPercentage = Num 40, error = None\<rparr>,
      \<lparr>pagePath = ''/1'', similarityPercentage = Num 98, error = None\<rparr>,
      \<lparr>pagePath = ''/4'', similarityPercentage = Num 99, error = None\<rparr>]"
  by (simp add: compareFn_def arraySort_def)


section \<open>Properties of the artifact names\<close>

text \<open>
  The claim that distinct page paths never share a file name fails: \<open>/a/b\<close> and \<open>/a_b\<close>
  are both stored as \<open>_a_b\<close>.
\<close>

theorem sanitize_collision:
  "sanitize ''/a/b'' = sanitize ''/a_b'' \<and> ''/a/b'' \<noteq> ''/a_b''"
  by (simp add: sanitize_def)

text \<open>
  C9. On page paths that hold no underscore the file name decides the path: two distinct
  such paths have distinct sanitized names.
\<close>

theorem sanitize_injective:
  "CHR ''_'' \<notin> set p \<Longrightarrow> CHR ''_'' \<notin> set q \<Longrightarrow> p \<noteq> q \<Longrightarrow> sanitize p \<noteq> sanitize q"
proof (induction p arbitrary: q)
  case Nil
  then show ?case by (simp add: sanitize_def)
next
  case (Cons a p)
  show ?case
  proof (cases q)
    case Nil
    then show ?thesis by (simp add: sanitize_def)
  next
    case (Cons b q')
    from Cons.prems Cons have ab: "a \<noteq> CHR ''_''" "b \<noteq> CHR ''_''"
      and rest: "CHR ''_'' \<notin> set p" "CHR ''_'' \<notin> set q'"
      by auto
    show ?thesis
    proof (cases "a = b")
      case True
      with Cons.prems Cons have "p \<noteq> q'" by simp
      from Cons.IH [OF rest this] Cons show ?thesis by (simp add: sanitize_def)
    next
      case False
      with ab Cons show ?thesis by (auto simp: sanitize_def split: if_splits)
    qed
  qed
qed

theorem sanitize_injective_witness:
  "CHR ''_'' \<notin> set ''/about/'' \<and> CHR ''_'' \<notin> set ''/apply/''
   \<and> ''/about/'' \<noteq> ''/apply/'' \<and> sanitize ''/about/'' \<noteq> sanitize ''/apply/''"
  using sanitize_injective [of "''/about/''" "''/apply/''"] by simp

text \<open>The page paths of \<open>config.js\<close> get pairwise distinct file names.\<close>

lemma staging_urls_distinct_names: "distinct (map sanitize staging_urls)"
  by (simp add: staging_urls_def sanitize_def)


section \<open>Properties of the arithmetic\<close>

subsection \<open>Rounding to a double\<close>

lemma expo_up_bound: "1 \<le> x \<Longrightarrow> 0 \<le> expo_up x \<and> 2 ^ nat (expo_up x) \<le> x"
proof (induction x rule: expo_up.induct)
  case (1 x)
  have unf: "expo_up x = (if 2 \<le> x then expo_up (x / 2) + 1 else 0)" by (rule expo_up.simps)
  show ?case
  proof (cases "2 \<le> x")
    case True
    then have "1 \<le> x / 2" by simp
    with "1.IH" True have ih: "0 \<le> expo_up (x / 2)" "2 ^ nat (expo_up (x / 2)) \<le> x / 2"
      by simp_all
    from unf True have eq: "expo_up x = expo_up (x / 2) + 1" by (simp only: if_True)
    from ih(1) have "nat (expo_up (x / 2) + 1) = Suc (nat (expo_up (x / 2)))" by simp
    with ih eq show ?thesis by simp
  next
    case False
    with unf have "expo_up x = 0" by (simp only: if_False)
    with "1.prems" show ?thesis by simp
  qed
qed

lemma expo_down_le: "expo_down x \<le> 0"
proof (induction x rule: expo_down.induct)
  case (1 x)
  have unf: "expo_down x = (if 0 < x \<and> x < 1 then expo_down (2 * x) - 1 else 0)"
    by (rule expo_down.simps)
  show ?case
  proof (cases "0 < x \<and> x < 1")
    case True
    with "1.IH" have "expo_down (2 * x) \<le> 0" by simp
    moreover from unf True have "expo_down x = expo_down (2 * x) - 1" by simp
    ultimately show ?thesis by simp
  next
    case False
    with unf have "expo_down x = 0" by (simp only: if_False)
    then show ?thesis by simp
  qed
qed

lemma exponent_le_52:
  assumes "x < 2 ^ 53"
  shows "exponent x \<le> 52"
proof (cases "1 \<le> x")
  case True
  from expo_up_bound [OF True] have nn: "0 \<le> expo_up x" and le: "2 ^ nat (expo_up x) \<le> x"
    by simp_all
  from le assms have "(2::real) ^ nat (expo_up x) < 2 ^ 53" by simp
  then have "nat (expo_up x) < 53" by (simp only: power_strict_increasing_iff [of 2])
  with nn True show ?thesis by (simp add: exponent_def)
next
  case False
  with expo_down_le [of x] show ?thesis by (simp add: exponent_def)
qed

lemma round_even_le: "q \<le> of_int N \<Longrightarrow> round_even q \<le> N"
proof -
  assume q: "q \<le> of_int N"
  then have fl: "\<lfloor>q\<rfloor> \<le> N" by (simp add: floor_le_iff)
  show ?thesis
  proof (cases "\<lfloor>q\<rfloor> = N")
    case True
    with q have "q - of_int \<lfloor>q\<rfloor> \<le> 0" by simp
    then have "q - of_int \<lfloor>q\<rfloor> < 1 / 2" by simp
    with True show ?thesis by (simp add: round_even_def Let_def)
  next
    case False
    with fl have "\<lfloor>q\<rfloor> + 1 \<le> N" by simp
    then show ?thesis by (simp add: round_even_def Let_def)
  qed
qed

lemma round_even_ge: "of_int N \<le> q \<Longrightarrow> N \<le> round_even q"
proof -
  assume "of_int N \<le> q"
  then have "N \<le> \<lfloor>q\<rfloor>" by (simp add: le_floor_iff)
  then show ?thesis by (simp add: round_even_def Let_def)
qed

lemma ulp_integral:
  assumes "e \<le> 52"
  shows "real c / 2 powi (e - 52) = of_int (int c * 2 ^ nat (52 - e))"
proof -
  from assms have "e - 52 = - int (nat (52 - e))" by simp
  then have "(2::real) powi (e - 52) = inverse (2 ^ nat (52 - e))"
    by (simp only: power_int_minus power_int_of_nat)
  then show ?thesis by (simp add: field_simps)
qed

lemma round64_pos:
  "0 < x \<Longrightarrow>
   round64 x = of_int (round_even (x / 2 powi (max (exponent x) (- 1022) - 52)))
                 * 2 powi (max (exponent x) (- 1022) - 52)"
  by (simp add: round64_def Let_def)

text \<open>Rounding keeps the sign and never crosses a natural number below \<open>2^53\<close>.\<close>

lemma round64_nonneg: "0 \<le> x \<Longrightarrow> 0 \<le> round64 x"
proof (cases "x = 0")
  case True then show ?thesis by (simp add: round64_def)
next
  case False
  assume "0 \<le> x"
  with False have pos: "0 < x" by simp
  define u :: real where "u = 2 powi (max (exponent x) (- 1022) - 52)"
  have u: "0 < u" by (simp add: u_def)
  from pos u have "of_int 0 \<le> x / u" by simp
  then have "0 \<le> round_even (x / u)" by (rule round_even_ge)
  with u have "0 \<le> of_int (round_even (x / u)) * u" by simp
  then show ?thesis by (simp only: round64_pos [OF pos] u_def)
qed

lemma round64_le_nat:
  assumes "0 \<le> x" "x \<le> real c" "x < 2 ^ 53"
  shows "round64 x \<le> real c"
proof (cases "x = 0")
  case True then show ?thesis by (simp add: round64_def)
next
  case False
  with assms have pos: "0 < x" by simp
  define e where "e = max (exponent x) (- 1022)"
  define u :: real where "u = 2 powi (e - 52)"
  have u: "0 < u" by (simp add: u_def)
  from assms(3) have "exponent x \<le> 52" by (rule exponent_le_52)
  then have e: "e \<le> 52" by (simp add: e_def)
  have cu: "real c / u = of_int (int c * 2 ^ nat (52 - e))"
    unfolding u_def by (rule ulp_integral [OF e])
  from assms(2) u have "x / u \<le> real c / u" by (simp add: divide_right_mono)
  with cu have "x / u \<le> of_int (int c * 2 ^ nat (52 - e))" by simp
  then have "round_even (x / u) \<le> int c * 2 ^ nat (52 - e)" by (rule round_even_le)
  then have "real_of_int (round_even (x / u)) \<le> real_of_int (int c * 2 ^ nat (52 - e))"
    by (simp only: of_int_le_iff)
  with cu have "real_of_int (round_even (x / u)) \<le> real c / u" by simp
  with u have "real_of_int (round_even (x / u)) * u \<le> real c" by (simp add: pos_le_divide_eq)
  then show ?thesis by (simp only: round64_pos [OF pos] u_def e_def)
qed

lemma round64_ge_nat:
  assumes "real c \<le> x" "x < 2 ^ 53"
  shows "real c \<le> round64 x"
proof (cases "x = 0")
  case True with assms show ?thesis by (simp add: round64_def)
next
  case False
  from assms have "0 \<le> x" using of_nat_0_le_iff [of c] by linarith
  with False have pos: "0 < x" by simp
  define e where "e = max (exponent x) (- 1022)"
  define u :: real where "u = 2 powi (e - 52)"
  have u: "0 < u" by (simp add: u_def)
  from assms(2) have "exponent x \<le> 52" by (rule exponent_le_52)
  then have e: "e \<le> 52" by (simp add: e_def)
  have cu: "real c / u = of_int (int c * 2 ^ nat (52 - e))"
    unfolding u_def by (rule ulp_integral [OF e])
  from assms(1) u have "real c / u \<le> x / u" by (simp add: divide_right_mono)
  with cu have "of_int (int c * 2 ^ nat (52 - e)) \<le> x / u" by simp
  then have "int c * 2 ^ nat (52 - e) \<le> round_even (x / u)" by (rule round_even_ge)
  then have "real_of_int (int c * 2 ^ nat (52 - e)) \<le> real_of_int (round_even (x / u))"
    by (simp only: of_int_le_iff)
  with cu have "real c / u \<le> real_of_int (round_even (x / u))" by simp
  with u have "real c \<le> real_of_int (round_even (x / u)) * u" by (simp add: pos_divide_le_eq)
  then show ?thesis by (simp only: round64_pos [OF pos] u_def e_def)
qed

lemma round64_nat: "real c < 2 ^ 53 \<Longrightarrow> round64 (real c) = real c"
  using round64_le_nat [of "real c" c] round64_ge_nat [of c "real c"] by simp

lemma round64_one: "round64 1 = 1"
  using round64_nat [of 1] by simp

lemma round64_hundred: "round64 100 = 100"
  using round64_nat [of 100] by simp

text \<open>
  The quotient of one pixel missing among the 1024000 of the canvas, times 100: the
  double \<open>99.99990234375001\<close>, not the real \<open>99.99990234375\<close>.
\<close>

lemma round64_one_pixel_off:
  "round64 (round64 (1023999 / 1024000) * 100) = 7036867545818727 / 70368744177664"
  by (simp add: round64_def exponent_def round_even_def Let_def expo_up.simps expo_down.simps)

subsection \<open>The count of mismatched pixels\<close>

lemma pixelmatch_le: "pixelmatch X d1 d2 w h \<le> w * h"
  using length_filter_le
    [of "\<lambda>i. pixelAt d1 i \<noteq> pixelAt d2 i \<and> pixel_differs X d1 d2 w h i" "[0..<w * h]"]
  by (simp add: pixelmatch_def)

lemma pixelmatch_self: "pixelmatch X d d w h = 0"
  by (simp add: pixelmatch_def)

subsection \<open>The similarity of two decoded images\<close>

lemma similarityOf_no_pixels:
  "width img1 * height img1 = 0 \<Longrightarrow> similarityOf X img1 img2 = NaN"
  by (simp add: similarityOf_def Let_def js_divide_def)

lemma similarityOf_not_Str: "similarityOf X a b \<noteq> Str t"
  by (simp add: similarityOf_def Let_def js_divide_def)

lemma similarityOf_value:
  assumes pos: "0 < width img1 * height img1"
  shows "similarityOf X img1 img2 =
       Num (round64 (round64 ((real (width img1 * height img1)
              - real (pixelmatch X (data img1) (data img2) (width img1) (height img1)))
            / real (width img1 * height img1)) * 100))"
    and "0 \<le> round64 (round64 ((real (width img1 * height img1)
              - real (pixelmatch X (data img1) (data img2) (width img1) (height img1)))
            / real (width img1 * height img1)) * 100)"
    and "round64 (round64 ((real (width img1 * height img1)
              - real (pixelmatch X (data img1) (data img2) (width img1) (height img1)))
            / real (width img1 * height img1)) * 100) \<le> 100"
proof -
  let ?t = "width img1 * height img1"
  let ?m = "pixelmatch X (data img1) (data img2) (width img1) (height img1)"
  define r where "r = (real ?t - real ?m) / real ?t"
  have le: "?m \<le> ?t" by (rule pixelmatch_le)
  then have rle: "real ?m \<le> real ?t" by (simp only: of_nat_le_iff)
  from pos have tpos: "0 < real ?t" by simp
  from rle tpos have r0: "0 \<le> r" by (simp add: r_def)
  have "real ?t - real ?m \<le> real ?t" by simp
  with tpos have r1: "r \<le> 1" by (simp add: r_def divide_le_eq)
  have q0: "0 \<le> round64 r" using r0 by (rule round64_nonneg)
  have "round64 r \<le> real 1" using r0 r1 by (intro round64_le_nat) simp_all
  then have q1: "round64 r \<le> 1" by simp
  from q0 have p0: "0 \<le> round64 r * 100" by simp
  from q1 have p1: "round64 r * 100 \<le> real 100" by simp
  show "similarityOf X img1 img2 = Num (round64 (round64 ((real ?t - real ?m) / real ?t) * 100))"
    using pos by (simp add: similarityOf_def Let_def js_divide_def)
  show "0 \<le> round64 (round64 ((real ?t - real ?m) / real ?t) * 100)"
    using p0 unfolding r_def by (rule round64_nonneg)
  have "round64 (round64 r * 100) \<le> real 100"
    using p0 p1 by (intro round64_le_nat) simp_all
  then show "round64 (round64 ((real ?t - real ?m) / real ?t) * 100) \<le> 100"
    by (simp add: r_def)
qed

lemma similarityOf_same_data:
  assumes pos: "0 < width img1 * height img1" and same: "data img2 = data img1"
  shows "similarityOf X img1 img2 = Num 100"
  using pos same
  by (simp add: similarityOf_def Let_def js_divide_def pixelmatch_self round64_one
      round64_hundred)

lemma pixelmatch_imgA_imgB: "pixelmatch sampleExt (data imgA) (data imgB) 2 1 = 1"
  by (simp add: pixelmatch_def pixelAt_def sampleExt_def imgA_def imgB_def
      upt_rec [of 0] upt_rec [of "Suc 0"] numeral_2_eq_2)

text \<open>Of the two pixels of \<open>imgA\<close> and \<open>imgB\<close> one differs: the similarity is 50.\<close>

lemma similarityOf_imgA_imgB: "similarityOf sampleExt imgA imgB = Num 50"
proof -
  have half: "round64 (1 / 2) = 1 / 2"
    by (simp add: round64_def exponent_def round_even_def Let_def expo_down.simps)
  have "round64 (real 50) = real 50" by (rule round64_nat) simp
  then have fifty: "round64 50 = 50" by simp
  have m: "pixelmatch sampleExt [0, 0, 0, 255, 255, 255, 255, 255]
             [0, 0, 0, 255, 255, 0, 0, 255] 2 (Suc 0) = 1"
    using pixelmatch_imgA_imgB by (simp add: imgA_def imgB_def)
  show ?thesis
    by (simp add: similarityOf_def Let_def js_divide_def imgA_def imgB_def m half fifty)
qed


section \<open>Properties of the comparison\<close>

subsection \<open>Normalisation\<close>

lemma resizeImage_Inr:
  "resizeImage X fs p w h = Inr fs' \<Longrightarrow>
     \<exists>b r. fs p = Some b \<and> sharp_resize X b w h = Inr r \<and> fs' = fs(p \<mapsto> r)"
  by (auto simp: resizeImage_def readFileSync_def writeFileSync_def
      split: option.splits sum.splits)

text \<open>
  What the code adds to the resize of the library: run on its own output file,
  \<open>resizeImage\<close> leaves the files as they are whenever the resize itself maps its
  output at that size to itself. Whether it does is a matter of the library.
\<close>

lemma resizeImage_twice:
  assumes "resizeImage X fs p w h = Inr fs1"
    and idem: "\<And>b r. sharp_resize X b w h = Inr r \<Longrightarrow> sharp_resize X r w h = Inr r"
  shows "resizeImage X fs1 p w h = Inr fs1"
proof -
  from resizeImage_Inr [OF assms(1)] obtain b r where
    r: "sharp_resize X b w h = Inr r" and fs1: "fs1 = fs(p \<mapsto> r)" by blast
  from idem [OF r] fs1 show ?thesis
    by (simp add: resizeImage_def readFileSync_def writeFileSync_def)
qed

lemma normalized_same_size:
  assumes canon: "\<And>b b' img. sharp_resize X b 1280 800 = Inr b' \<Longrightarrow> png_read X b' = Inr img
            \<Longrightarrow> width img = 1280 \<and> height img = 800"
    and r1: "resizeImage X fs baselinePath 1280 800 = Inr fs1"
    and r2: "resizeImage X fs1 currentPath 1280 800 = Inr fs2"
    and b1: "readFileSync fs2 baselinePath = Inr b1" and i1: "png_read X b1 = Inr img1"
    and b2: "readFileSync fs2 currentPath = Inr b2" and i2: "png_read X b2 = Inr img2"
  shows "width img1 = 1280 \<and> height img1 = 800 \<and> width img2 = 1280 \<and> height img2 = 800"
proof -
  from resizeImage_Inr [OF r1] obtain c1 n1 where
    n1: "sharp_resize X c1 1280 800 = Inr n1" and fs1: "fs1 = fs(baselinePath \<mapsto> n1)" by blast
  from resizeImage_Inr [OF r2] obtain c2 n2 where
    n2: "sharp_resize X c2 1280 800 = Inr n2" and fs2: "fs2 = fs1(currentPath \<mapsto> n2)" by blast
  from b2 fs2 have "b2 = n2" by (simp add: readFileSync_def)
  with canon [OF n2] i2 have two: "width img2 = 1280 \<and> height img2 = 800" by simp
  from b1 fs1 fs2 have "b1 = n1 \<or> b1 = n2"
    by (auto simp: readFileSync_def split: if_splits)
  with canon [OF n1] canon [OF n2] i1 have "width img1 = 1280 \<and> height img1 = 800" by auto
  with two show ?thesis by simp
qed

text \<open>
  C8. Let every output of the resize to 1280 by 800 that decodes at all decode to an
  image 1280 wide and 800 high (the canonical canvas). Then \<open>compareScreenshots\<close> never
  returns \<open>"Size mismatch"\<close>, whatever the files hold: the two images it decodes after
  normalising both files have the same width and the same height.
\<close>

theorem size_mismatch_unreachable:
  assumes canon: "\<And>b b' img. sharp_resize X b 1280 800 = Inr b' \<Longrightarrow> png_read X b' = Inr img
            \<Longrightarrow> width img = 1280 \<and> height img = 800"
  shows "fst (compareScreenshots X fs baselinePath currentPath diffPath)
           \<noteq> Inr (Str ''Size mismatch'')"
proof (cases "existsSync fs baselinePath \<and> existsSync fs currentPath")
  case False
  then show ?thesis by (auto simp: compareScreenshots_def)
next
  case ex: True
  show ?thesis
  proof (cases "resizeImage X fs baselinePath 1280 800")
    case (Inl m) with ex show ?thesis by (simp add: compareScreenshots_def)
  next
    case r1: (Inr fs1)
    show ?thesis
    proof (cases "resizeImage X fs1 currentPath 1280 800")
      case (Inl m) with ex r1 show ?thesis by (simp add: compareScreenshots_def)
    next
      case r2: (Inr fs2)
      show ?thesis
      proof (cases "readFileSync fs2 baselinePath")
        case (Inl m) with ex r1 r2 show ?thesis by (simp add: compareScreenshots_def)
      next
        case b1: (Inr b1)
        show ?thesis
        proof (cases "png_read X b1")
          case (Inl m) with ex r1 r2 b1 show ?thesis by (simp add: compareScreenshots_def)
        next
          case i1: (Inr img1)
          show ?thesis
          proof (cases "readFileSync fs2 currentPath")
            case (Inl m)
            with ex r1 r2 b1 i1 show ?thesis by (simp add: compareScreenshots_def)
          next
            case b2: (Inr b2)
            show ?thesis
            proof (cases "png_read X b2")
              case (Inl m)
              with ex r1 r2 b1 i1 b2 show ?thesis by (simp add: compareScreenshots_def)
            next
              case i2: (Inr img2)
              from normalized_same_size [OF canon r1 r2 b1 i1 b2 i2]
              have "width img1 = width img2" "height img1 = height img2" by simp_all
              with ex r1 r2 b1 i1 b2 i2 show ?thesis
                by (simp add: compareScreenshots_def similarityOf_not_Str)
            qed
          qed
        qed
      qed
    qed
  qed
qed

lemma sample_comparison_scores:
  "fst (compareScreenshots sampleExt [''a.png'' \<mapsto> ''shot a'', ''b.png'' \<mapsto> ''shot b'']
          ''a.png'' ''b.png'' ''d.png'')
     = Inr (similarityOf sampleExt
         \<lparr> width = 1280, height = 800, data = replicate (4 * 1280 * 800) 255 \<rparr>
         \<lparr> width = 1280, height = 800, data = replicate (4 * 1280 * 800) 255 \<rparr>)"
  by (simp add: compareScreenshots_def existsSync_def resizeImage_def readFileSync_def
      writeFileSync_def sampleExt_def)

theorem size_mismatch_unreachable_witness:
  "fst (compareScreenshots sampleExt [''a.png'' \<mapsto> ''shot a'', ''b.png'' \<mapsto> ''shot b'']
          ''a.png'' ''b.png'' ''d.png'')
     \<noteq> Inr (Str ''Size mismatch'')
   \<and> fst (compareScreenshots sampleExt [''a.png'' \<mapsto> ''shot a'', ''b.png'' \<mapsto> ''shot b'']
          ''a.png'' ''b.png'' ''d.png'')
     = Inr (similarityOf sampleExt
         \<lparr> width = 1280, height = 800, data = replicate (4 * 1280 * 800) 255 \<rparr>
         \<lparr> width = 1280, height = 800, data = replicate (4 * 1280 * 800) 255 \<rparr>)"
proof
  show "fst (compareScreenshots sampleExt [''a.png'' \<mapsto> ''shot a'', ''b.png'' \<mapsto> ''shot b'']
          ''a.png'' ''b.png'' ''d.png'') \<noteq> Inr (Str ''Size mismatch'')"
    by (rule size_mismatch_unreachable) (auto simp: sampleExt_def)
  show "fst (compareScreenshots sampleExt [''a.png'' \<mapsto> ''shot a'', ''b.png'' \<mapsto> ''shot b'']
          ''a.png'' ''b.png'' ''d.png'')
     = Inr (similarityOf sampleExt
         \<lparr> width = 1280, height = 800, data = replicate (4 * 1280 * 800) 255 \<rparr>
         \<lparr> width = 1280, height = 800, data = replicate (4 * 1280 * 800) 255 \<rparr>)"
    by (rule sample_comparison_scores)
qed


subsection \<open>The similarity percentage\<close>

lemma compareScreenshots_scored:
  assumes r1: "resizeImage X fs baselinePath 1280 800 = Inr fs1"
    and r2: "resizeImage X fs1 currentPath 1280 800 = Inr fs2"
    and b1: "readFileSync fs2 baselinePath = Inr b1" and i1: "png_read X b1 = Inr img1"
    and b2: "readFileSync fs2 currentPath = Inr b2" and i2: "png_read X b2 = Inr img2"
    and same: "width img1 = width img2" "height img1 = height img2"
  shows "compareScreenshots X fs baselinePath currentPath diffPath
           = (Inr (similarityOf X img1 img2),
              writeFileSync fs2 diffPath (png_write X (diffImage X img1 img2)))"
proof -
  from resizeImage_Inr [OF r1] obtain c1 n1 where
    c1: "fs baselinePath = Some c1" and fs1: "fs1 = fs(baselinePath \<mapsto> n1)" by blast
  from resizeImage_Inr [OF r2] obtain c2 where c2: "fs1 currentPath = Some c2" by blast
  with fs1 have "fs currentPath \<noteq> None" by (auto split: if_splits simp: c1)
  with c1 have ex: "existsSync fs baselinePath" "existsSync fs currentPath"
    by (simp_all add: existsSync_def)
  with r1 r2 b1 i1 b2 i2 same show ?thesis by (simp add: compareScreenshots_def)
qed

text \<open>
  C6. On the canonical canvas (every output of the resize that decodes is 1280 by 800),
  when \<open>compareScreenshots\<close> has normalised both files and decoded them to the images
  \<open>img1\<close> and \<open>img2\<close>, the two have the same width and height and the value returned is
  \<open>(totalPixels - mismatchedPixels) / totalPixels * 100\<close> as JavaScript computes it: the
  quotient rounded to a double, times 100, rounded again, with \<open>mismatchedPixels\<close> the
  count of pixelmatch. The value lies between 0 and 100, and it is exactly 100 when the
  two images hold the same bytes.
\<close>

theorem similarity_formula_bounds:
  assumes canon: "\<And>b b' img. sharp_resize X b 1280 800 = Inr b' \<Longrightarrow> png_read X b' = Inr img
            \<Longrightarrow> width img = 1280 \<and> height img = 800"
    and r1: "resizeImage X fs baselinePath 1280 800 = Inr fs1"
    and r2: "resizeImage X fs1 currentPath 1280 800 = Inr fs2"
    and b1: "readFileSync fs2 baselinePath = Inr b1" and i1: "png_read X b1 = Inr img1"
    and b2: "readFileSync fs2 currentPath = Inr b2" and i2: "png_read X b2 = Inr img2"
  shows "fst (compareScreenshots X fs baselinePath currentPath diffPath)
           = Inr (Num (round64 (round64
               ((real (width img1 * height img1)
                  - real (pixelmatch X (data img1) (data img2) (width img1) (height img1)))
                / real (width img1 * height img1)) * 100)))
     \<and> 0 \<le> round64 (round64
               ((real (width img1 * height img1)
                  - real (pixelmatch X (data img1) (data img2) (width img1) (height img1)))
                / real (width img1 * height img1)) * 100)
     \<and> round64 (round64
               ((real (width img1 * height img1)
                  - real (pixelmatch X (data img1) (data img2) (width img1) (height img1)))
                / real (width img1 * height img1)) * 100) \<le> 100
     \<and> (data img2 = data img1 \<longrightarrow>
          fst (compareScreenshots X fs baselinePath currentPath diffPath) = Inr (Num 100))
     \<and> width img1 = width img2 \<and> height img1 = height img2"
proof -
  from normalized_same_size [OF canon r1 r2 b1 i1 b2 i2]
  have dims: "width img1 = 1280" "height img1 = 800" "width img2 = 1280" "height img2 = 800"
    by simp_all
  then have same: "width img1 = width img2" "height img1 = height img2" by simp_all
  from dims have pos: "0 < width img1 * height img1" by simp
  have run: "fst (compareScreenshots X fs baselinePath currentPath diffPath)
      = Inr (similarityOf X img1 img2)"
    by (simp only: compareScreenshots_scored [OF r1 r2 b1 i1 b2 i2 same] fst_conv)
  note v = similarityOf_value [OF pos, of X img2]
  have self: "data img2 = data img1 \<longrightarrow>
          fst (compareScreenshots X fs baselinePath currentPath diffPath) = Inr (Num 100)"
  proof
    assume "data img2 = data img1"
    with pos have "similarityOf X img1 img2 = Num 100" by (rule similarityOf_same_data)
    with run show "fst (compareScreenshots X fs baselinePath currentPath diffPath) = Inr (Num 100)"
      by simp
  qed
  show ?thesis
  proof (intro conjI)
    show "fst (compareScreenshots X fs baselinePath currentPath diffPath)
           = Inr (Num (round64 (round64
               ((real (width img1 * height img1)
                  - real (pixelmatch X (data img1) (data img2) (width img1) (height img1)))
                / real (width img1 * height img1)) * 100)))"
      by (simp only: run v(1))
  qed (rule v(2) v(3) self same)+
qed

lemma sample_normalised:
  "resizeImage sampleExt [''a.png'' \<mapsto> ''shot a'', ''b.png'' \<mapsto> ''shot b''] ''a.png'' 1280 800
     = Inr [''a.png'' \<mapsto> ''canvas of shot a'', ''b.png'' \<mapsto> ''shot b'']"
  "resizeImage sampleExt [''a.png'' \<mapsto> ''canvas of shot a'', ''b.png'' \<mapsto> ''shot b'']
       ''b.png'' 1280 800
     = Inr [''a.png'' \<mapsto> ''canvas of shot a'', ''b.png'' \<mapsto> ''canvas of shot b'']"
  "readFileSync [''a.png'' \<mapsto> ''canvas of shot a'', ''b.png'' \<mapsto> ''canvas of shot b''] ''a.png''
     = Inr ''canvas of shot a''"
  "png_read sampleExt ''canvas of shot a''
     = Inr \<lparr> width = 1280, height = 800, data = replicate (4 * 1280 * 800) 255 \<rparr>"
  "readFileSync [''a.png'' \<mapsto> ''canvas of shot a'', ''b.png'' \<mapsto> ''canvas of shot b''] ''b.png''
     = Inr ''canvas of shot b''"
  "png_read sampleExt ''canvas of shot b''
     = Inr \<lparr> width = 1280, height = 800, data = replicate (4 * 1280 * 800) 255 \<rparr>"
  by (auto simp: resizeImage_def readFileSync_def writeFileSync_def sampleExt_def)

theorem similarity_formula_bounds_witness:
  "fst (compareScreenshots sampleExt [''a.png'' \<mapsto> ''shot a'', ''b.png'' \<mapsto> ''shot b'']
          ''a.png'' ''b.png'' ''d.png'') = Inr (Num 100)"
proof (rule similarity_formula_bounds [OF _ sample_normalised,
      THEN conjunct2, THEN conjunct2, THEN conjunct2, THEN conjunct1, THEN mp])
  show "\<And>b b' img. sharp_resize sampleExt b 1280 800 = Inr b'
      \<Longrightarrow> png_read sampleExt b' = Inr img \<Longrightarrow> width img = 1280 \<and> height img = 800"
    by (auto simp: sampleExt_def)
  show "data \<lparr> width = 1280, height = 800, data = replicate (4 * 1280 * 800) 255 \<rparr>
      = data \<lparr> width = 1280, height = 800, data = replicate (4 * 1280 * 800) (255::nat) \<rparr>"
    by (rule refl)
qed

section \<open>Properties of the main loop\<close>

subsection \<open>One result for each page\<close>

lemma results_processPage:
  "\<exists>r. results (processPage X p s) = results s @ [r] \<and> pagePath r = p"
  by (simp add: processPage_def Let_def split: prod.split sum.split)

lemma pagePaths_processPage:
  "map pagePath (results (processPage X p s)) = map pagePath (results s) @ [p]"
  using results_processPage [of X p s] by auto

lemma pagePaths_runLoop:
  "map pagePath (results (runLoop X urls s)) = map pagePath (results s) @ urls"
  by (induction urls arbitrary: s) (simp_all add: pagePaths_processPage)

lemma last_result_pagePath: "pagePath (last (results (processPage X p s))) = p"
  using results_processPage [of X p s] by auto


lemma runLoop_append: "runLoop X (pre @ post) s = runLoop X post (runLoop X pre s)"
  by (induction pre arbitrary: s) simp_all

lemma processPage_results_irrelevant:
  "processPage X p (s\<lparr>results := rs\<rparr>)
     = (processPage X p s)\<lparr>results := rs @ [last (results (processPage X p s))]\<rparr>"
  by (simp add: processPage_def Let_def split: prod.split sum.split)

lemma results_runLoop_prefix:
  "\<exists>rs. results (runLoop X urls s) = results s @ rs \<and> length rs = length urls"
proof (induction urls arbitrary: s)
  case Nil
  then show ?case by simp
next
  case (Cons p urls)
  from results_processPage [of X p s] obtain r where
    r: "results (processPage X p s) = results s @ [r]" by blast
  from Cons.IH [of "processPage X p s"] obtain rs where
    "results (runLoop X urls (processPage X p s)) = results (processPage X p s) @ rs"
    "length rs = length urls" by blast
  with r have "results (runLoop X (p # urls) s) = results s @ (r # rs) \<and> length (r # rs) = length (p # urls)"
    by simp
  then show ?case by blast
qed

lemma length_results_runLoop:
  "length (results (runLoop X urls s)) = length (results s) + length urls"
  using results_runLoop_prefix [of X urls s] by auto

lemma result_at_page:
  "results (runLoop X (pre @ p # post) \<lparr>files = fs, world = w, results = []\<rparr>) ! length pre
     = last (results (processPage X p (runLoop X pre \<lparr>files = fs, world = w, results = []\<rparr>)))"
proof -
  let ?s0 = "\<lparr>files = fs, world = w, results = []\<rparr>"
  let ?s1 = "runLoop X pre ?s0"
  let ?s2 = "processPage X p ?s1"
  have l1: "length (results ?s1) = length pre"
    using length_results_runLoop [of X pre ?s0] by simp
  from results_processPage [of X p ?s1] obtain r where
    r: "results ?s2 = results ?s1 @ [r]" by blast
  from results_runLoop_prefix [of X post ?s2] obtain rs where
    rs: "results (runLoop X post ?s2) = results ?s2 @ rs" by blast
  have "runLoop X (pre @ p # post) ?s0 = runLoop X post ?s2"
    by (simp add: runLoop_append)
  with r rs have "results (runLoop X (pre @ p # post) ?s0) = results ?s1 @ r # rs" by simp
  with l1 have "results (runLoop X (pre @ p # post) ?s0) ! length pre = r"
    by (simp add: nth_append)
  with r show ?thesis by simp
qed

subsection \<open>Three pages of the sample world, and a fourth\<close>

lemma sampleExt_calls:
  "page_capture sampleExt w url =
     (if url = staging_baseUrl @ ''/down/''
      then Inl ''page.goto: Timeout 60000ms exceeded.''
      else Inr (''shot of '' @ url), Suc w)"
  "sharp_resize sampleExt b x y = Inr (''canvas of '' @ b)"
  "png_read sampleExt b =
     Inr \<lparr> width = 1280, height = 800, data = replicate (4 * 1280 * 800) 255 \<rparr>"
  "png_write sampleExt img = ''mask''"
  by (simp_all add: sampleExt_def)

lemma similarityOf_sample_canvas:
  "similarityOf sampleExt
     \<lparr> width = 1280, height = 800, data = replicate (4 * 1280 * 800) 255 \<rparr>
     \<lparr> width = 1280, height = 800, data = replicate (4 * 1280 * 800) 255 \<rparr> = Num 100"
  by (rule similarityOf_same_data) simp_all

lemma sample_three_pages:
  "results (runLoop sampleExt [''/'', ''/about/'', ''/down/'']
       \<lparr>files = Map.empty, world = 0, results = []\<rparr>)
     = [\<lparr>pagePath = ''/'', similarityPercentage = Num 100, error = None\<rparr>,
        \<lparr>pagePath = ''/about/'', similarityPercentage = Num 100, error = None\<rparr>,
        \<lparr>pagePath = ''/down/'', similarityPercentage = Str ''Error'', error = None\<rparr>]"
  using similarityOf_sample_canvas
  by (simp add: processPage_def Let_def captureScreenshot_def sampleExt_calls
      compareScreenshots_def existsSync_def resizeImage_def readFileSync_def writeFileSync_def
      screenshotPath_def sanitize_def deviceName_def staging_baseUrl_def prod_baseUrl_def)

lemma sample_fourth_page:
  "last (results (processPage sampleExt ''/apply/''
       (runLoop sampleExt [''/'', ''/about/'', ''/down/'']
          \<lparr>files = Map.empty, world = 0, results = []\<rparr>)))
     = \<lparr>pagePath = ''/apply/'', similarityPercentage = Num 100, error = None\<rparr>"
  using similarityOf_sample_canvas
  by (simp add: processPage_def Let_def captureScreenshot_def sampleExt_calls
      compareScreenshots_def existsSync_def resizeImage_def readFileSync_def writeFileSync_def
      screenshotPath_def sanitize_def deviceName_def staging_baseUrl_def prod_baseUrl_def)

subsection \<open>A failing page does not stop the loop\<close>

text \<open>
  C3. Whatever the browser, the resize, the decoder and the differ do on each page
  (fail or succeed), the loop over the page paths ends with exactly one result for each
  page path, in the order of the list, and the report has one row for each of them: the
  rows' links are, up to order, the page paths of the input, each as often as the input
  has it. No page is skipped or filled in: the result at the position of a page is the
  one that the pass of the loop for that page pushes, run on the files and the browser
  as the pages before it left them; that pass does not read the results of earlier
  pages, so an earlier failure changes nothing in it; and the loop over a list is the
  loop over its first part followed by the loop over the rest.
\<close>

theorem one_result_per_page:
  "map pagePath (results (runLoop X urls \<lparr>files = fs, world = w, results = []\<rparr>)) = urls
   \<and> totalPages (visualComparison X urls fs w) = length urls
   \<and> length (tableRows (visualComparison X urls fs w)) = length urls
   \<and> mset (map stagingHref (tableRows (visualComparison X urls fs w)))
       = mset (map (\<lambda>p. staging_baseUrl @ p) urls)
   \<and> results (runLoop X (pre @ p # post) \<lparr>files = fs, world = w, results = []\<rparr>) ! length pre
       = last (results (processPage X p
                 (runLoop X pre \<lparr>files = fs, world = w, results = []\<rparr>)))
   \<and> processPage X p (s\<lparr>results := rs\<rparr>)
       = (processPage X p s)\<lparr>results := rs @ [last (results (processPage X p s))]\<rparr>
   \<and> runLoop X (pre @ post) s = runLoop X post (runLoop X pre s)"
proof -
  let ?s = "runLoop X urls \<lparr>files = fs, world = w, results = []\<rparr>"
  have paths: "map pagePath (results ?s) = urls"
    using pagePaths_runLoop [of X urls "\<lparr>files = fs, world = w, results = []\<rparr>"] by simp
  then have len: "length (results ?s) = length urls"
    by (metis length_map)
  have "mset (map stagingHref (tableRows (visualComparison X urls fs w)))
      = image_mset (\<lambda>r. staging_baseUrl @ pagePath r) (mset (arraySort compareFn (results ?s)))"
    by (simp add: visualComparison_def Let_def generateHtmlReport_def reportRow_def comp_def)
  also have "\<dots> = image_mset (\<lambda>r. staging_baseUrl @ pagePath r) (mset (results ?s))"
    by (simp only: mset_arraySort)
  also have "\<dots> = mset (map (\<lambda>p. staging_baseUrl @ p) (map pagePath (results ?s)))"
    by (simp add: comp_def)
  finally have rows: "mset (map stagingHref (tableRows (visualComparison X urls fs w)))
      = mset (map (\<lambda>p. staging_baseUrl @ p) urls)"
    by (simp only: paths)
  have counts: "totalPages (visualComparison X urls fs w) = length urls
      \<and> length (tableRows (visualComparison X urls fs w)) = length urls"
    using len by (simp add: visualComparison_def Let_def generateHtmlReport_def length_arraySort)
  show ?thesis
  proof (intro conjI)
    show "map pagePath (results ?s) = urls" by (rule paths)
    show "totalPages (visualComparison X urls fs w) = length urls" using counts by simp
    show "length (tableRows (visualComparison X urls fs w)) = length urls" using counts by simp
    show "mset (map stagingHref (tableRows (visualComparison X urls fs w)))
       = mset (map (\<lambda>p. staging_baseUrl @ p) urls)" by (rule rows)
    show "results (runLoop X (pre @ p # post) \<lparr>files = fs, world = w, results = []\<rparr>) ! length pre
       = last (results (processPage X p
                 (runLoop X pre \<lparr>files = fs, world = w, results = []\<rparr>)))"
      by (rule result_at_page)
    show "processPage X p (s\<lparr>results := rs\<rparr>)
       = (processPage X p s)\<lparr>results := rs @ [last (results (processPage X p s))]\<rparr>"
      by (rule processPage_results_irrelevant)
    show "runLoop X (pre @ post) s = runLoop X post (runLoop X pre s)"
      by (rule runLoop_append)
  qed
qed

theorem one_result_per_page_witness:
  "similarityPercentage
      (results (runLoop sampleExt [''/'', ''/about/'', ''/down/'', ''/apply/'', ''/tuition/'']
          \<lparr>files = Map.empty, world = 0, results = []\<rparr>) ! 2) = Str ''Error''
   \<and> results (runLoop sampleExt [''/'', ''/about/'', ''/down/'', ''/apply/'', ''/tuition/'']
          \<lparr>files = Map.empty, world = 0, results = []\<rparr>) ! 3
       = \<lparr>pagePath = ''/apply/'', similarityPercentage = Num 100, error = None\<rparr>"
proof -
  note t = one_result_per_page
    [where X = sampleExt and fs = Map.empty and w = 0
       and pre = "[''/'', ''/about/'', ''/down/'']" and p = "''/apply/''"
       and post = "[''/tuition/'']"]
  from t have four: "results (runLoop sampleExt ([''/'', ''/about/'', ''/down/''] @ ''/apply/'' # [''/tuition/''])
          \<lparr>files = Map.empty, world = 0, results = []\<rparr>) ! length [''/'', ''/about/'', ''/down/'']
       = last (results (processPage sampleExt ''/apply/''
           (runLoop sampleExt [''/'', ''/about/'', ''/down/'']
              \<lparr>files = Map.empty, world = 0, results = []\<rparr>)))"
    by blast
  note t3 = one_result_per_page
    [where X = sampleExt and pre = "[''/'', ''/about/'', ''/down/'']"
       and post = "[''/apply/'', ''/tuition/'']"
       and s = "\<lparr>files = Map.empty, world = 0, results = []\<rparr>"]
  from t3 have split: "runLoop sampleExt ([''/'', ''/about/'', ''/down/''] @ [''/apply/'', ''/tuition/''])
       \<lparr>files = Map.empty, world = 0, results = []\<rparr>
     = runLoop sampleExt [''/apply/'', ''/tuition/'']
         (runLoop sampleExt [''/'', ''/about/'', ''/down/''] \<lparr>files = Map.empty, world = 0, results = []\<rparr>)"
    by blast
  from results_runLoop_prefix [of sampleExt "[''/apply/'', ''/tuition/'']"
      "runLoop sampleExt [''/'', ''/about/'', ''/down/''] \<lparr>files = Map.empty, world = 0, results = []\<rparr>"]
  obtain rs where "results (runLoop sampleExt [''/apply/'', ''/tuition/'']
         (runLoop sampleExt [''/'', ''/about/'', ''/down/''] \<lparr>files = Map.empty, world = 0, results = []\<rparr>))
      = results (runLoop sampleExt [''/'', ''/about/'', ''/down/''] \<lparr>files = Map.empty, world = 0, results = []\<rparr>) @ rs"
    by blast
  with split sample_three_pages
  have third: "similarityPercentage
      (results (runLoop sampleExt [''/'', ''/about/'', ''/down/'', ''/apply/'', ''/tuition/'']
          \<lparr>files = Map.empty, world = 0, results = []\<rparr>) ! 2) = Str ''Error''"
    by (simp add: numeral_2_eq_2)
  from four sample_fourth_page
  have "results (runLoop sampleExt [''/'', ''/about/'', ''/down/'', ''/apply/'', ''/tuition/'']
          \<lparr>files = Map.empty, world = 0, results = []\<rparr>) ! 3
       = \<lparr>pagePath = ''/apply/'', similarityPercentage = Num 100, error = None\<rparr>"
    by (simp add: numeral_3_eq_3)
  with third show ?thesis by blast
qed

section \<open>Properties of the summary\<close>

lemma compareScreenshots_outcome:
  "fst (compareScreenshots X fs baselinePath currentPath diffPath) = Inr v \<Longrightarrow>
     v = Str ''Error''
     \<or> (\<exists>fs1 fs2 b1 b2 img1 img2.
           resizeImage X fs baselinePath 1280 800 = Inr fs1
         \<and> resizeImage X fs1 currentPath 1280 800 = Inr fs2
         \<and> readFileSync fs2 baselinePath = Inr b1 \<and> png_read X b1 = Inr img1
         \<and> readFileSync fs2 currentPath = Inr b2 \<and> png_read X b2 = Inr img2
         \<and> (if width img1 \<noteq> width img2 \<or> height img1 \<noteq> height img2
              then v = Str ''Size mismatch'' else v = similarityOf X img1 img2))"
  by (auto simp: compareScreenshots_def split: if_splits sum.splits)

lemma compareScreenshots_value:
  assumes canon: "\<forall>b b' img. sharp_resize X b 1280 800 = Inr b' \<longrightarrow> png_read X b' = Inr img
            \<longrightarrow> width img = 1280 \<and> height img = 800"
    and v: "fst (compareScreenshots X fs baselinePath currentPath diffPath) = Inr v"
  shows "v = Str ''Error'' \<or> (\<exists>p. v = Num p)"
proof (cases "v = Str ''Error''")
  case True
  then show ?thesis by simp
next
  case False
  with compareScreenshots_outcome [OF v] obtain fs1 fs2 b1 b2 img1 img2 where
    r1: "resizeImage X fs baselinePath 1280 800 = Inr fs1"
    and r2: "resizeImage X fs1 currentPath 1280 800 = Inr fs2"
    and b1: "readFileSync fs2 baselinePath = Inr b1" and i1: "png_read X b1 = Inr img1"
    and b2: "readFileSync fs2 currentPath = Inr b2" and i2: "png_read X b2 = Inr img2"
    and out: "if width img1 \<noteq> width img2 \<or> height img1 \<noteq> height img2
              then v = Str ''Size mismatch'' else v = similarityOf X img1 img2"
    by blast
  from canon have "\<And>b b' img. sharp_resize X b 1280 800 = Inr b' \<Longrightarrow> png_read X b' = Inr img
            \<Longrightarrow> width img = 1280 \<and> height img = 800" by blast
  from normalized_same_size [OF this r1 r2 b1 i1 b2 i2]
  have dims: "width img1 = 1280" "height img1 = 800" "width img2 = 1280" "height img2 = 800"
    by simp_all
  with out have "v = similarityOf X img1 img2" by simp
  moreover from dims have "0 < width img1 * height img1" by simp
  ultimately show ?thesis using similarityOf_value(1) [of img1 X img2] by simp
qed

lemma processPage_value:
  assumes canon: "\<forall>b b' img. sharp_resize X b 1280 800 = Inr b' \<longrightarrow> png_read X b' = Inr img
            \<longrightarrow> width img = 1280 \<and> height img = 800"
  shows "\<exists>r. results (processPage X p s) = results s @ [r]
           \<and> (similarityPercentage r = Str ''Error'' \<or> (\<exists>q. similarityPercentage r = Num q))"
proof -
  let ?c = "compareScreenshots X
       (fst (captureScreenshot X
          (captureScreenshot X (files s, world s) (staging_baseUrl @ p)
             (screenshotPath deviceName ''staging'' p))
          (prod_baseUrl @ p) (screenshotPath deviceName ''prod'' p)))
       (screenshotPath deviceName ''staging'' p) (screenshotPath deviceName ''prod'' p)
       (screenshotPath deviceName ''diff'' p)"
  obtain a fs' where c: "?c = (a, fs')" by (cases ?c)
  show ?thesis
  proof (cases a)
    case (Inl m)
    with c have "results (processPage X p s) = results s @
        [\<lparr>pagePath = p, similarityPercentage = Str ''Error'', error = Some m\<rparr>]"
      by (simp add: processPage_def Let_def)
    then show ?thesis by simp
  next
    case (Inr v)
    with c have "results (processPage X p s) = results s @
        [\<lparr>pagePath = p, similarityPercentage = v, error = None\<rparr>]"
      by (simp add: processPage_def Let_def)
    moreover from c Inr have "fst ?c = Inr v" by simp
    from compareScreenshots_value [OF canon this]
    have "v = Str ''Error'' \<or> (\<exists>q. v = Num q)" .
    ultimately show ?thesis by simp
  qed
qed

lemma runLoop_values:
  assumes canon: "\<forall>b b' img. sharp_resize X b 1280 800 = Inr b' \<longrightarrow> png_read X b' = Inr img
            \<longrightarrow> width img = 1280 \<and> height img = 800"
  shows "(\<forall>r\<in>set (results s).
            similarityPercentage r = Str ''Error'' \<or> (\<exists>q. similarityPercentage r = Num q))
     \<Longrightarrow> (\<forall>r\<in>set (results (runLoop X urls s)).
            similarityPercentage r = Str ''Error'' \<or> (\<exists>q. similarityPercentage r = Num q))"
proof (induction urls arbitrary: s)
  case Nil
  then show ?case by simp
next
  case (Cons p urls)
  from processPage_value [OF canon, where p = p and s = s] obtain r where
    "results (processPage X p s) = results s @ [r]"
    "similarityPercentage r = Str ''Error'' \<or> (\<exists>q. similarityPercentage r = Num q)" by blast
  with Cons.prems have "\<forall>r\<in>set (results (processPage X p s)).
      similarityPercentage r = Str ''Error'' \<or> (\<exists>q. similarityPercentage r = Num q)" by auto
  from Cons.IH [OF this] show ?case by simp
qed

lemma classified_once:
  "similarityPercentage r = Str ''Error'' \<or> (\<exists>q. similarityPercentage r = Num q) \<Longrightarrow>
     (isPassed r \<and> \<not> isFailed r \<and> \<not> isErrored r \<and> statusText r = ''Pass'')
   \<or> (isFailed r \<and> \<not> isPassed r \<and> \<not> isErrored r \<and> statusText r = ''Fail'')
   \<or> (isErrored r \<and> \<not> isPassed r \<and> \<not> isFailed r \<and> statusText r = ''Error'')"
  by (auto simp: isPassed_def isFailed_def isErrored_def statusText_def)

lemma counts_add_up:
  "(\<forall>r\<in>set rs.
      similarityPercentage r = Str ''Error'' \<or> (\<exists>q. similarityPercentage r = Num q))
   \<Longrightarrow> length (filter isPassed rs) + length (filter isFailed rs) + length (filter isErrored rs)
       = length rs"
proof (induction rs)
  case Nil
  then show ?case by simp
next
  case (Cons r rs)
  then have r: "similarityPercentage r = Str ''Error'' \<or> (\<exists>q. similarityPercentage r = Num q)"
    and rest: "length (filter isPassed rs) + length (filter isFailed rs)
       + length (filter isErrored rs) = length rs" by simp_all
  from classified_once [OF r] rest show ?case by auto
qed

text \<open>
  C5. On the canonical canvas (every output of the resize that decodes is 1280 by 800),
  in every run of the test each result the loop hands to the report is classified as
  exactly one of Pass, Fail and Error, by the counts and by the status of its row alike,
  and the summary's passed, failed and errors add up to the total of pages tested.
\<close>

theorem counts_add_up_on_every_run:
  assumes canon: "\<And>b b' img. sharp_resize X b 1280 800 = Inr b' \<Longrightarrow> png_read X b' = Inr img
            \<Longrightarrow> width img = 1280 \<and> height img = 800"
  shows "passed (visualComparison X urls fs w) + failed (visualComparison X urls fs w)
           + errors (visualComparison X urls fs w) = totalPages (visualComparison X urls fs w)
     \<and> (\<forall>r\<in>set (results (runLoop X urls \<lparr>files = fs, world = w, results = []\<rparr>)).
           (isPassed r \<and> \<not> isFailed r \<and> \<not> isErrored r \<and> statusText r = ''Pass'')
         \<or> (isFailed r \<and> \<not> isPassed r \<and> \<not> isErrored r \<and> statusText r = ''Fail'')
         \<or> (isErrored r \<and> \<not> isPassed r \<and> \<not> isFailed r \<and> statusText r = ''Error''))"
proof -
  let ?rs = "results (runLoop X urls \<lparr>files = fs, world = w, results = []\<rparr>)"
  from canon have c: "\<forall>b b' img. sharp_resize X b 1280 800 = Inr b' \<longrightarrow> png_read X b' = Inr img
            \<longrightarrow> width img = 1280 \<and> height img = 800" by blast
  have good: "\<forall>r\<in>set ?rs.
      similarityPercentage r = Str ''Error'' \<or> (\<exists>q. similarityPercentage r = Num q)"
  proof (rule runLoop_values [OF c])
    show "\<forall>r\<in>set (results \<lparr>files = fs, world = w, results = []\<rparr>).
      similarityPercentage r = Str ''Error'' \<or> (\<exists>q. similarityPercentage r = Num q)"
      by simp
  qed
  from counts_add_up [OF good]
  have "passed (visualComparison X urls fs w) + failed (visualComparison X urls fs w)
           + errors (visualComparison X urls fs w) = totalPages (visualComparison X urls fs w)"
    by (simp add: visualComparison_def Let_def generateHtmlReport_def)
  moreover from good classified_once
  have "\<forall>r\<in>set ?rs.
           (isPassed r \<and> \<not> isFailed r \<and> \<not> isErrored r \<and> statusText r = ''Pass'')
         \<or> (isFailed r \<and> \<not> isPassed r \<and> \<not> isErrored r \<and> statusText r = ''Fail'')
         \<or> (isErrored r \<and> \<not> isPassed r \<and> \<not> isFailed r \<and> statusText r = ''Error'')"
    by blast
  ultimately show ?thesis by blast
qed

lemma sample_report_counts:
  "passed (visualComparison sampleExt [''/'', ''/about/'', ''/down/''] Map.empty 0) = 2"
  "failed (visualComparison sampleExt [''/'', ''/about/'', ''/down/''] Map.empty 0) = 0"
  "errors (visualComparison sampleExt [''/'', ''/about/'', ''/down/''] Map.empty 0) = 1"
  "totalPages (visualComparison sampleExt [''/'', ''/about/'', ''/down/''] Map.empty 0) = 3"
  by (simp_all add: visualComparison_def Let_def generateHtmlReport_def sample_three_pages
      isPassed_def isFailed_def isErrored_def del: runLoop.simps)

theorem counts_add_up_on_every_run_witness:
  "passed (visualComparison sampleExt [''/'', ''/about/'', ''/down/''] Map.empty 0)
     + failed (visualComparison sampleExt [''/'', ''/about/'', ''/down/''] Map.empty 0)
     + errors (visualComparison sampleExt [''/'', ''/about/'', ''/down/''] Map.empty 0)
     = totalPages (visualComparison sampleExt [''/'', ''/about/'', ''/down/''] Map.empty 0)
   \<and> errors (visualComparison sampleExt [''/'', ''/about/'', ''/down/''] Map.empty 0) = 1
   \<and> totalPages (visualComparison sampleExt [''/'', ''/about/'', ''/down/''] Map.empty 0) = 3"
proof (intro conjI)
  show "passed (visualComparison sampleExt [''/'', ''/about/'', ''/down/''] Map.empty 0)
     + failed (visualComparison sampleExt [''/'', ''/about/'', ''/down/''] Map.empty 0)
     + errors (visualComparison sampleExt [''/'', ''/about/'', ''/down/''] Map.empty 0)
     = totalPages (visualComparison sampleExt [''/'', ''/about/'', ''/down/''] Map.empty 0)"
  proof (rule counts_add_up_on_every_run [THEN conjunct1])
    show "\<And>b b' img. sharp_resize sampleExt b 1280 800 = Inr b'
        \<Longrightarrow> png_read sampleExt b' = Inr img \<Longrightarrow> width img = 1280 \<and> height img = 800"
      by (auto simp: sampleExt_def)
  qed
qed (rule sample_report_counts)+

text \<open>
  The report function on its own counts only the string \<open>"Error"\<close> as an error: handed
  a result with \<open>"Size mismatch"\<close>, a value the loop does not produce on the canonical
  canvas, it counts the page nowhere and shows its row as Error.
\<close>

lemma size_mismatch_not_counted:
  "passed (generateHtmlReport X fs
      [\<lparr>pagePath = ''/'', similarityPercentage = Str ''Size mismatch'', error = None\<rparr>] deviceName)
   + failed (generateHtmlReport X fs
      [\<lparr>pagePath = ''/'', similarityPercentage = Str ''Size mismatch'', error = None\<rparr>] deviceName)
   + errors (generateHtmlReport X fs
      [\<lparr>pagePath = ''/'', similarityPercentage = Str ''Size mismatch'', error = None\<rparr>] deviceName)
   = 0
   \<and> totalPages (generateHtmlReport X fs
      [\<lparr>pagePath = ''/'', similarityPercentage = Str ''Size mismatch'', error = None\<rparr>] deviceName)
     = 1
   \<and> map statusColumn (tableRows (generateHtmlReport X fs
      [\<lparr>pagePath = ''/'', similarityPercentage = Str ''Size mismatch'', error = None\<rparr>] deviceName))
     = [''Error'']"
  by (simp add: generateHtmlReport_def isPassed_def isFailed_def isErrored_def
      arraySort_def reportRow_def statusText_def)

section \<open>Properties of one pass of the loop\<close>

lemma screenshotPath_dirs:
  "screenshotPath d ''staging'' p \<noteq> screenshotPath d ''prod'' p"
  "screenshotPath d ''staging'' p \<noteq> screenshotPath d ''diff'' p"
  "screenshotPath d ''prod'' p \<noteq> screenshotPath d ''diff'' p"
  by (simp_all add: screenshotPath_def)

lemma compareScreenshots_missing:
  "\<not> existsSync fs baselinePath \<or> \<not> existsSync fs currentPath \<Longrightarrow>
     compareScreenshots X fs baselinePath currentPath diffPath = (Inr (Str ''Error''), fs)"
  by (auto simp: compareScreenshots_def)

lemma compareScreenshots_files:
  assumes "fs baselinePath = Some b1" "fs currentPath = Some b2" "baselinePath \<noteq> currentPath"
    and "sharp_resize X b1 1280 800 = Inr n1" "sharp_resize X b2 1280 800 = Inr n2"
  shows "snd (compareScreenshots X fs baselinePath currentPath diffPath)
           = fs(baselinePath \<mapsto> n1, currentPath \<mapsto> n2)
       \<or> (\<exists>m. snd (compareScreenshots X fs baselinePath currentPath diffPath)
           = fs(baselinePath \<mapsto> n1, currentPath \<mapsto> n2, diffPath \<mapsto> m))"
  using assms
  by (auto simp: compareScreenshots_def existsSync_def resizeImage_def readFileSync_def
      writeFileSync_def split: sum.splits)

lemma files_processPage:
  "files (processPage X p s) =
     snd (compareScreenshots X
       (fst (captureScreenshot X
          (captureScreenshot X (files s, world s) (staging_baseUrl @ p)
             (screenshotPath deviceName ''staging'' p))
          (prod_baseUrl @ p) (screenshotPath deviceName ''prod'' p)))
       (screenshotPath deviceName ''staging'' p) (screenshotPath deviceName ''prod'' p)
       (screenshotPath deviceName ''diff'' p))"
  by (simp add: processPage_def Let_def split: prod.split sum.split)

subsection \<open>A missing capture\<close>

text \<open>
  The claim that the result of a page whose capture failed carries the failure message
  of the browser, and that the report shows it, fails. In the sample world the staging
  page \<open>/down/\<close> times out with a message; the result pushed for it is
  \<open>{ pagePath, similarityPercentage: "Error" }\<close> without an \<open>error\<close> field, and its one
  row in the report holds the two links, \<open>Error\<close> twice and the production image: the
  message is nowhere in it.
\<close>

theorem failure_message_not_recorded:
  "fst (page_capture sampleExt 0 (staging_baseUrl @ ''/down/''))
     = Inl ''page.goto: Timeout 60000ms exceeded.''
   \<and> results (processPage sampleExt ''/down/'' \<lparr>files = Map.empty, world = 0, results = []\<rparr>)
     = [\<lparr>pagePath = ''/down/'', similarityPercentage = Str ''Error'', error = None\<rparr>]
   \<and> tableRows (visualComparison sampleExt [''/down/''] Map.empty 0)
     = [\<lparr> stagingHref = ''https://live-web-sheridan.pantheonsite.io/down/'',
          prodHref = ''https://online.sheridancollege.ca/down/'',
          similarityColumn = Plain ''Error'',
          statusColumnClass = ''status-error'',
          statusColumn = ''Error'',
          stagingBase64 = None,
          prodBase64 =
            Some ''data:image/png;base64,shot of https://online.sheridancollege.ca/down/'',
          diffBase64 = None \<rparr>]"
  by (simp add: sampleExt_def processPage_def captureScreenshot_def compareScreenshots_def
      existsSync_def writeFileSync_def readFileSync_def screenshotPath_def sanitize_def
      deviceName_def staging_baseUrl_def prod_baseUrl_def visualComparison_def
      generateHtmlReport_def arraySort_def reportRow_def similarityCell_def statusText_def
      statusClass_def imageToBase64_def dataUrl_def extname_def basename_def Let_def)

text \<open>
  C4. If, after the two captures of a page, the staging or the production file is
  missing, the result pushed for the page is the outcome \<open>"Error"\<close> with no message, the
  files are left as the captures left them (nothing is normalised, no diff is written),
  and the row of that result shows \<open>Error\<close> in the similarity and in the status column.
  No row depends on the \<open>error\<close> field of its result: the report has no place for a
  reason.
\<close>

theorem missing_capture_is_Error:
  assumes missing:
    "\<not> existsSync (fst (captureScreenshot X
          (captureScreenshot X (files s, world s) (staging_baseUrl @ p)
             (screenshotPath deviceName ''staging'' p))
          (prod_baseUrl @ p) (screenshotPath deviceName ''prod'' p)))
        (screenshotPath deviceName ''staging'' p)
     \<or> \<not> existsSync (fst (captureScreenshot X
          (captureScreenshot X (files s, world s) (staging_baseUrl @ p)
             (screenshotPath deviceName ''staging'' p))
          (prod_baseUrl @ p) (screenshotPath deviceName ''prod'' p)))
        (screenshotPath deviceName ''prod'' p)"
  shows "results (processPage X p s)
           = results s @ [\<lparr>pagePath = p, similarityPercentage = Str ''Error'', error = None\<rparr>]
     \<and> files (processPage X p s)
           = fst (captureScreenshot X
               (captureScreenshot X (files s, world s) (staging_baseUrl @ p)
                  (screenshotPath deviceName ''staging'' p))
               (prod_baseUrl @ p) (screenshotPath deviceName ''prod'' p))
     \<and> similarityColumn (reportRow X fs' d
          \<lparr>pagePath = p, similarityPercentage = Str ''Error'', error = None\<rparr>) = Plain ''Error''
     \<and> statusColumn (reportRow X fs' d
          \<lparr>pagePath = p, similarityPercentage = Str ''Error'', error = None\<rparr>) = ''Error''
     \<and> reportRow X fs' d (r\<lparr>error := e\<rparr>) = reportRow X fs' d r"
proof -
  let ?fs2 = "fst (captureScreenshot X
          (captureScreenshot X (files s, world s) (staging_baseUrl @ p)
             (screenshotPath deviceName ''staging'' p))
          (prod_baseUrl @ p) (screenshotPath deviceName ''prod'' p))"
  from compareScreenshots_missing [OF missing]
  have cmp: "compareScreenshots X ?fs2 (screenshotPath deviceName ''staging'' p)
      (screenshotPath deviceName ''prod'' p) (screenshotPath deviceName ''diff'' p)
      = (Inr (Str ''Error''), ?fs2)" .
  have res: "results (processPage X p s)
           = results s @ [\<lparr>pagePath = p, similarityPercentage = Str ''Error'', error = None\<rparr>]"
    using cmp by (simp add: processPage_def Let_def)
  have fl: "files (processPage X p s) = ?fs2"
    using cmp by (simp add: processPage_def Let_def)
  show ?thesis
    using res fl
    by (simp add: reportRow_def similarityCell_def statusText_def statusClass_def)
qed

lemma sample_down_missing:
  "\<not> existsSync (fst (captureScreenshot sampleExt
          (captureScreenshot sampleExt (files emptyState, world emptyState)
             (staging_baseUrl @ ''/down/'') (screenshotPath deviceName ''staging'' ''/down/''))
          (prod_baseUrl @ ''/down/'') (screenshotPath deviceName ''prod'' ''/down/'')))
        (screenshotPath deviceName ''staging'' ''/down/'')"
  by (simp add: sampleExt_def emptyState_def staging_baseUrl_def prod_baseUrl_def
      captureScreenshot_def existsSync_def writeFileSync_def screenshotPath_def)

theorem missing_capture_is_Error_witness:
  "\<not> existsSync (fst (captureScreenshot sampleExt
          (captureScreenshot sampleExt (files emptyState, world emptyState)
             (staging_baseUrl @ ''/down/'') (screenshotPath deviceName ''staging'' ''/down/''))
          (prod_baseUrl @ ''/down/'') (screenshotPath deviceName ''prod'' ''/down/'')))
        (screenshotPath deviceName ''staging'' ''/down/'')
   \<and> results (processPage sampleExt ''/down/'' emptyState)
       = [\<lparr>pagePath = ''/down/'', similarityPercentage = Str ''Error'', error = None\<rparr>]
   \<and> files (processPage sampleExt ''/down/'' emptyState) (screenshotPath deviceName ''diff'' ''/down/'')
       = None"
proof -
  note m = sample_down_missing
  from missing_capture_is_Error [OF disjI1, OF m]
  have "results (processPage sampleExt ''/down/'' emptyState)
          = results emptyState
            @ [\<lparr>pagePath = ''/down/'', similarityPercentage = Str ''Error'', error = None\<rparr>]"
    and "files (processPage sampleExt ''/down/'' emptyState)
          = fst (captureScreenshot sampleExt
               (captureScreenshot sampleExt (files emptyState, world emptyState)
                  (staging_baseUrl @ ''/down/'') (screenshotPath deviceName ''staging'' ''/down/''))
               (prod_baseUrl @ ''/down/'') (screenshotPath deviceName ''prod'' ''/down/''))"
    by blast+
  then have "results (processPage sampleExt ''/down/'' emptyState)
       = [\<lparr>pagePath = ''/down/'', similarityPercentage = Str ''Error'', error = None\<rparr>]"
    and "files (processPage sampleExt ''/down/'' emptyState)
           (screenshotPath deviceName ''diff'' ''/down/'') = None"
    by (simp_all add: sampleExt_def emptyState_def staging_baseUrl_def prod_baseUrl_def
        captureScreenshot_def writeFileSync_def screenshotPath_def)
  with m show ?thesis by blast
qed


subsection \<open>Normalisation in place\<close>

text \<open>
  Not every page has its images normalised. In the sample world the staging capture of
  \<open>/down/\<close> fails and the production capture succeeds; the comparison returns before
  any resize, the production file keeps the bytes as captured, and the report embeds
  them, not their resized form.
\<close>

theorem raw_capture_embedded:
  "files (processPage sampleExt ''/down/'' emptyState)
       (screenshotPath deviceName ''prod'' ''/down/'')
     = Some ''shot of https://online.sheridancollege.ca/down/''
   \<and> map prodBase64 (tableRows (visualComparison sampleExt [''/down/''] Map.empty 0))
     = [Some ''data:image/png;base64,shot of https://online.sheridancollege.ca/down/'']
   \<and> sharp_resize sampleExt ''shot of https://online.sheridancollege.ca/down/'' 1280 800
     = Inr ''canvas of shot of https://online.sheridancollege.ca/down/''"
  by (simp add: sampleExt_def emptyState_def processPage_def captureScreenshot_def
      compareScreenshots_def existsSync_def writeFileSync_def readFileSync_def
      screenshotPath_def sanitize_def deviceName_def staging_baseUrl_def prod_baseUrl_def
      visualComparison_def generateHtmlReport_def arraySort_def reportRow_def
      imageToBase64_def dataUrl_def extname_def basename_def Let_def)


lemma resizeImage_frame:
  "resizeImage X fs0 q a b = Inr fs' \<Longrightarrow> q' \<noteq> q \<Longrightarrow> fs' q' = fs0 q'"
  using resizeImage_Inr [of X fs0 q a b fs'] by auto

lemma captureScreenshot_frame:
  "q \<noteq> path \<Longrightarrow> fst (captureScreenshot X st url path) q = fst st q"
  by (simp add: captureScreenshot_def writeFileSync_def split: prod.split sum.split)

lemma compareScreenshots_frame:
  "q \<noteq> baselinePath \<Longrightarrow> q \<noteq> currentPath \<Longrightarrow> q \<noteq> diffPath \<Longrightarrow>
     snd (compareScreenshots X fs baselinePath currentPath diffPath) q = fs q"
  by (auto simp: compareScreenshots_def resizeImage_def readFileSync_def writeFileSync_def
      split: sum.splits option.splits)

lemma processPage_frame:
  assumes "q \<noteq> screenshotPath deviceName ''staging'' p"
    and "q \<noteq> screenshotPath deviceName ''prod'' p"
    and "q \<noteq> screenshotPath deviceName ''diff'' p"
  shows "files (processPage X p s) q = files s q"
  using assms
  by (simp add: files_processPage compareScreenshots_frame captureScreenshot_frame)

lemma screenshotPath_other_page:
  assumes "sanitize q \<noteq> sanitize p"
    and "dir = ''staging'' \<or> dir = ''prod'' \<or> dir = ''diff''"
    and "dir' = ''staging'' \<or> dir' = ''prod'' \<or> dir' = ''diff''"
  shows "screenshotPath d dir p \<noteq> screenshotPath d dir' q"
  using assms by (auto simp: screenshotPath_def)

lemma runLoop_frame:
  assumes "sanitize p \<notin> sanitize ` set post"
    and "dir = ''staging'' \<or> dir = ''prod'' \<or> dir = ''diff''"
  shows "files (runLoop X post s) (screenshotPath deviceName dir p)
           = files s (screenshotPath deviceName dir p)"
  using assms(1)
proof (induction post arbitrary: s)
  case Nil
  then show ?case by simp
next
  case (Cons q post)
  then have ne: "sanitize q \<noteq> sanitize p" and rest: "sanitize p \<notin> sanitize ` set post"
    by auto
  have "files (processPage X q s) (screenshotPath deviceName dir p)
      = files s (screenshotPath deviceName dir p)"
    by (rule processPage_frame) (rule screenshotPath_other_page [OF ne assms(2)], simp)+
  with Cons.IH [OF rest, of "processPage X q s"] show ?case by simp
qed

lemma processPage_normalised:
  assumes ex1: "fst (captureScreenshot X
          (captureScreenshot X (files s, world s) (staging_baseUrl @ p)
             (screenshotPath deviceName ''staging'' p))
          (prod_baseUrl @ p) (screenshotPath deviceName ''prod'' p))
        (screenshotPath deviceName ''staging'' p) = Some c1"
    and ex2: "fst (captureScreenshot X
          (captureScreenshot X (files s, world s) (staging_baseUrl @ p)
             (screenshotPath deviceName ''staging'' p))
          (prod_baseUrl @ p) (screenshotPath deviceName ''prod'' p))
        (screenshotPath deviceName ''prod'' p) = Some c2"
    and rs1: "sharp_resize X c1 1280 800 = Inr n1"
    and rs2: "sharp_resize X c2 1280 800 = Inr n2"
  shows "files (processPage X p s) (screenshotPath deviceName ''staging'' p) = Some n1"
    and "files (processPage X p s) (screenshotPath deviceName ''prod'' p) = Some n2"
proof -
  let ?sp = "screenshotPath deviceName ''staging'' p"
  let ?pp = "screenshotPath deviceName ''prod'' p"
  let ?dp = "screenshotPath deviceName ''diff'' p"
  let ?caps = "fst (captureScreenshot X
          (captureScreenshot X (files s, world s) (staging_baseUrl @ p) ?sp)
          (prod_baseUrl @ p) ?pp)"
  note ne = screenshotPath_dirs [of deviceName p]
  have fs': "files (processPage X p s) = snd (compareScreenshots X ?caps ?sp ?pp ?dp)"
    by (rule files_processPage)
  from compareScreenshots_files [OF ex1 ex2 ne(1) rs1 rs2, of ?dp]
  have cases: "files (processPage X p s) = ?caps(?sp \<mapsto> n1, ?pp \<mapsto> n2)
      \<or> (\<exists>m. files (processPage X p s) = ?caps(?sp \<mapsto> n1, ?pp \<mapsto> n2, ?dp \<mapsto> m))"
    unfolding fs' .
  from cases ne show "files (processPage X p s) ?sp = Some n1" by auto
  from cases ne show "files (processPage X p s) ?pp = Some n2" by auto
qed

lemma page_has_row:
  "\<exists>row\<in>set (tableRows (visualComparison X (pre @ p # post) fs w)).
      stagingHref row = staging_baseUrl @ p"
proof -
  let ?rs = "results (runLoop X (pre @ p # post) \<lparr>files = fs, world = w, results = []\<rparr>)"
  have "map pagePath ?rs = pre @ p # post"
    using pagePaths_runLoop [of X "pre @ p # post" "\<lparr>files = fs, world = w, results = []\<rparr>"]
    by simp
  then have "p \<in> pagePath ` set ?rs" by (metis in_set_conv_decomp list.set_map)
  then obtain r where r: "r \<in> set ?rs" "pagePath r = p" by blast
  from r(1) have "r \<in> set (arraySort compareFn ?rs)"
    using mset_arraySort [of compareFn ?rs] by (metis set_mset_mset)
  then have "reportRow X (files (runLoop X (pre @ p # post)
        \<lparr>files = fs, world = w, results = []\<rparr>)) deviceName r
      \<in> set (tableRows (visualComparison X (pre @ p # post) fs w))"
    by (simp add: visualComparison_def Let_def generateHtmlReport_def)
  moreover from r(2) have "stagingHref (reportRow X (files (runLoop X (pre @ p # post)
        \<lparr>files = fs, world = w, results = []\<rparr>)) deviceName r) = staging_baseUrl @ p"
    by (simp add: reportRow_def)
  ultimately show ?thesis by blast
qed

text \<open>
  C10. \<open>resizeImage\<close> writes the resized bytes to the path it read and to no other. Take
  a page whose staging and production files both exist after its two captures (captured
  now or left from before) and whose two resizes succeed. Then after the pass of the loop
  for the page both files hold the resized bytes (what was captured is gone) and every
  path other than the three artifact paths of the page is as before; and if no later
  page of the run has the same sanitized name, both files still hold the resized bytes
  when the loop ends, and every row of the page in the report built then (there is one)
  embeds the resized staging and production images.
\<close>

theorem normalisation_in_place:
  assumes ex1: "fst (captureScreenshot X
          (captureScreenshot X
             (files (runLoop X pre \<lparr>files = fs, world = w, results = []\<rparr>),
              world (runLoop X pre \<lparr>files = fs, world = w, results = []\<rparr>))
             (staging_baseUrl @ p) (screenshotPath deviceName ''staging'' p))
          (prod_baseUrl @ p) (screenshotPath deviceName ''prod'' p))
        (screenshotPath deviceName ''staging'' p) = Some c1"
    and ex2: "fst (captureScreenshot X
          (captureScreenshot X
             (files (runLoop X pre \<lparr>files = fs, world = w, results = []\<rparr>),
              world (runLoop X pre \<lparr>files = fs, world = w, results = []\<rparr>))
             (staging_baseUrl @ p) (screenshotPath deviceName ''staging'' p))
          (prod_baseUrl @ p) (screenshotPath deviceName ''prod'' p))
        (screenshotPath deviceName ''prod'' p) = Some c2"
    and rs1: "sharp_resize X c1 1280 800 = Inr n1"
    and rs2: "sharp_resize X c2 1280 800 = Inr n2"
    and later: "sanitize p \<notin> sanitize ` set post"
  shows "resizeImage X (fst (captureScreenshot X
          (captureScreenshot X
             (files (runLoop X pre \<lparr>files = fs, world = w, results = []\<rparr>),
              world (runLoop X pre \<lparr>files = fs, world = w, results = []\<rparr>))
             (staging_baseUrl @ p) (screenshotPath deviceName ''staging'' p))
          (prod_baseUrl @ p) (screenshotPath deviceName ''prod'' p)))
             (screenshotPath deviceName ''staging'' p) 1280 800
           = Inr ((fst (captureScreenshot X
          (captureScreenshot X
             (files (runLoop X pre \<lparr>files = fs, world = w, results = []\<rparr>),
              world (runLoop X pre \<lparr>files = fs, world = w, results = []\<rparr>))
             (staging_baseUrl @ p) (screenshotPath deviceName ''staging'' p))
          (prod_baseUrl @ p) (screenshotPath deviceName ''prod'' p)))
                    (screenshotPath deviceName ''staging'' p \<mapsto> n1))
     \<and> (\<forall>fs0 q a b fs' q'. resizeImage X fs0 q a b = Inr fs' \<and> q' \<noteq> q \<longrightarrow> fs' q' = fs0 q')
     \<and> files (processPage X p (runLoop X pre \<lparr>files = fs, world = w, results = []\<rparr>))
          (screenshotPath deviceName ''staging'' p) = Some n1
     \<and> files (processPage X p (runLoop X pre \<lparr>files = fs, world = w, results = []\<rparr>))
          (screenshotPath deviceName ''prod'' p) = Some n2
     \<and> (\<forall>q. q \<noteq> screenshotPath deviceName ''staging'' p
            \<and> q \<noteq> screenshotPath deviceName ''prod'' p
            \<and> q \<noteq> screenshotPath deviceName ''diff'' p
            \<longrightarrow> files (processPage X p (runLoop X pre \<lparr>files = fs, world = w, results = []\<rparr>)) q
                = files (runLoop X pre \<lparr>files = fs, world = w, results = []\<rparr>) q)
     \<and> files (runLoop X (pre @ p # post) \<lparr>files = fs, world = w, results = []\<rparr>)
          (screenshotPath deviceName ''staging'' p) = Some n1
     \<and> files (runLoop X (pre @ p # post) \<lparr>files = fs, world = w, results = []\<rparr>)
          (screenshotPath deviceName ''prod'' p) = Some n2
     \<and> (\<forall>row\<in>set (tableRows (visualComparison X (pre @ p # post) fs w)).
           stagingHref row = staging_baseUrl @ p \<longrightarrow>
             stagingBase64 row = Some (dataUrl X (screenshotPath deviceName ''staging'' p) n1)
           \<and> prodBase64 row = Some (dataUrl X (screenshotPath deviceName ''prod'' p) n2))
     \<and> (\<exists>row\<in>set (tableRows (visualComparison X (pre @ p # post) fs w)).
           stagingHref row = staging_baseUrl @ p)"
proof -
  let ?sp = "screenshotPath deviceName ''staging'' p"
  let ?pp = "screenshotPath deviceName ''prod'' p"
  let ?s0 = "\<lparr>files = fs, world = w, results = []\<rparr>"
  let ?s1 = "runLoop X pre ?s0"
  let ?caps = "fst (captureScreenshot X
          (captureScreenshot X (files ?s1, world ?s1) (staging_baseUrl @ p) ?sp)
          (prod_baseUrl @ p) ?pp)"
  let ?final = "files (runLoop X (pre @ p # post) ?s0)"
  have one: "resizeImage X ?caps ?sp 1280 800 = Inr (?caps(?sp \<mapsto> n1))"
    using ex1 rs1 by (simp add: resizeImage_def readFileSync_def writeFileSync_def)
  have frame1: "\<forall>fs0 q a b fs' q'. resizeImage X fs0 q a b = Inr fs' \<and> q' \<noteq> q
      \<longrightarrow> fs' q' = fs0 q'"
    using resizeImage_frame by blast
  note page = processPage_normalised [OF ex1 ex2 rs1 rs2]
  have frame2: "\<forall>q. q \<noteq> ?sp \<and> q \<noteq> ?pp \<and> q \<noteq> screenshotPath deviceName ''diff'' p
      \<longrightarrow> files (processPage X p ?s1) q = files ?s1 q"
    by (simp add: processPage_frame)
  have run: "runLoop X (pre @ p # post) ?s0 = runLoop X post (processPage X p ?s1)"
    by (simp add: runLoop_append)
  have f1: "?final ?sp = Some n1"
    unfolding run using runLoop_frame [OF later, of "''staging''" X "processPage X p ?s1"] page(1)
    by simp
  have f2: "?final ?pp = Some n2"
    unfolding run using runLoop_frame [OF later, of "''prod''" X "processPage X p ?s1"] page(2)
    by simp
  have rows: "\<forall>row\<in>set (tableRows (visualComparison X (pre @ p # post) fs w)).
           stagingHref row = staging_baseUrl @ p \<longrightarrow>
             stagingBase64 row = Some (dataUrl X ?sp n1)
           \<and> prodBase64 row = Some (dataUrl X ?pp n2)"
  proof (intro ballI impI)
    fix row
    assume "row \<in> set (tableRows (visualComparison X (pre @ p # post) fs w))"
      and href: "stagingHref row = staging_baseUrl @ p"
    then obtain r where row: "row = reportRow X ?final deviceName r"
      by (auto simp: visualComparison_def Let_def generateHtmlReport_def)
    with href have "pagePath r = p" by (simp add: reportRow_def)
    with row f1 f2 show "stagingBase64 row = Some (dataUrl X ?sp n1)
           \<and> prodBase64 row = Some (dataUrl X ?pp n2)"
      by (simp add: reportRow_def imageToBase64_def existsSync_def readFileSync_def)
  qed
  from one frame1 page frame2 f1 f2 rows page_has_row [of X pre p post fs w]
  show ?thesis by blast
qed

lemma sample_about_files:
  "fst (captureScreenshot sampleExt
          (captureScreenshot sampleExt
             (files (runLoop sampleExt [] \<lparr>files = Map.empty, world = 0, results = []\<rparr>),
              world (runLoop sampleExt [] \<lparr>files = Map.empty, world = 0, results = []\<rparr>))
             (staging_baseUrl @ ''/about/'') (screenshotPath deviceName ''staging'' ''/about/''))
          (prod_baseUrl @ ''/about/'') (screenshotPath deviceName ''prod'' ''/about/''))
        (screenshotPath deviceName ''staging'' ''/about/'')
     = Some ''shot of https://live-web-sheridan.pantheonsite.io/about/''"
  "fst (captureScreenshot sampleExt
          (captureScreenshot sampleExt
             (files (runLoop sampleExt [] \<lparr>files = Map.empty, world = 0, results = []\<rparr>),
              world (runLoop sampleExt [] \<lparr>files = Map.empty, world = 0, results = []\<rparr>))
             (staging_baseUrl @ ''/about/'') (screenshotPath deviceName ''staging'' ''/about/''))
          (prod_baseUrl @ ''/about/'') (screenshotPath deviceName ''prod'' ''/about/''))
        (screenshotPath deviceName ''prod'' ''/about/'')
     = Some ''shot of https://online.sheridancollege.ca/about/''"
  "sharp_resize sampleExt ''shot of https://live-web-sheridan.pantheonsite.io/about/'' 1280 800
     = Inr ''canvas of shot of https://live-web-sheridan.pantheonsite.io/about/''"
  "sharp_resize sampleExt ''shot of https://online.sheridancollege.ca/about/'' 1280 800
     = Inr ''canvas of shot of https://online.sheridancollege.ca/about/''"
  "sanitize ''/about/'' \<notin> sanitize ` set [''/apply/'']"
  by (simp_all add: sampleExt_calls captureScreenshot_def writeFileSync_def screenshotPath_def
      sanitize_def staging_baseUrl_def prod_baseUrl_def)

theorem normalisation_in_place_witness:
  "files (runLoop sampleExt ([] @ ''/about/'' # [''/apply/''])
       \<lparr>files = Map.empty, world = 0, results = []\<rparr>)
     (screenshotPath deviceName ''staging'' ''/about/'')
     = Some ''canvas of shot of https://live-web-sheridan.pantheonsite.io/about/''
   \<and> files (runLoop sampleExt ([] @ ''/about/'' # [''/apply/''])
       \<lparr>files = Map.empty, world = 0, results = []\<rparr>)
     (screenshotPath deviceName ''prod'' ''/about/'')
     = Some ''canvas of shot of https://online.sheridancollege.ca/about/''"
  using normalisation_in_place [OF sample_about_files] by blast

section \<open>A run of five pages\<close>

text \<open>
  Five pages in the sample world, the third of which cannot be captured on staging: the
  loop still yields five results, the third an \<open>"Error"\<close>, the others the similarity of
  two equal canvases.
\<close>

lemma five_pages_third_failing:
  "map similarityPercentage (results (runLoop sampleExt
       [''/'', ''/about/'', ''/down/'', ''/apply/'', ''/tuition/''] emptyState))
     = [Num 100, Num 100, Str ''Error'', Num 100, Num 100]"
  using similarityOf_sample_canvas
  by (simp add: emptyState_def processPage_def Let_def captureScreenshot_def sampleExt_calls
      compareScreenshots_def existsSync_def resizeImage_def readFileSync_def writeFileSync_def
      screenshotPath_def sanitize_def deviceName_def staging_baseUrl_def prod_baseUrl_def)

end
